theory Spec2Isabelle
  imports Complex_Main "HOL-Library.Word"
begin

section \<open>Python values\<close>

text \<open>
  A Python \<open>str\<close> is a sequence of Unicode code points and \<open>len\<close> counts code points, so a
  string is a list of code points here. Literals of the source are written as their code
  points; the comment beside each gives the literal with \<open>\\u\<close> escapes. \<open>bytes\<close> is a
  list of 8-bit words. Python's \<open>float\<close> is modelled by \<open>real\<close>: the comparisons of the
  source are exact on the values the theorems use, the rounding of float arithmetic is not
  modelled.
\<close>

type_synonym pystr = "nat list"
type_synonym bytes = "8 word list"

text \<open>
  \<open>str.isspace\<close> of CPython for one code point: the characters of bidirectional class WS, B
  or S, or of general category Zs.
\<close>

definition isspace :: "nat \<Rightarrow> bool" where
  "isspace c \<longleftrightarrow>
     (9 \<le> c \<and> c \<le> 13) \<or> (28 \<le> c \<and> c \<le> 32) \<or> c = 133 \<or> c = 160 \<or> c = 5760 \<or>
     (8192 \<le> c \<and> c \<le> 8202) \<or> c = 8232 \<or> c = 8233 \<or> c = 8239 \<or> c = 8287 \<or> c = 12288"

text \<open>\<open>str.strip()\<close> with no argument: whitespace is removed at both ends.\<close>

definition strip :: "pystr \<Rightarrow> pystr" where
  "strip s = rev (dropWhile isspace (rev (dropWhile isspace s)))"

text \<open>
  A \<open>str\<close> may hold lone surrogates (U+D800 to U+DFFF), which UTF-8 cannot encode:
  \<open>s.encode('utf-8')\<close> and a write to a file opened with \<open>encoding='utf-8'\<close> raise
  \<open>UnicodeEncodeError\<close> on such a string, before anything is written.
\<close>

definition is_surrogate :: "nat \<Rightarrow> bool" where
  "is_surrogate c \<longleftrightarrow> 55296 \<le> c \<and> c \<le> 57343"

definition utf8_encodable :: "pystr \<Rightarrow> bool" where
  "utf8_encodable s \<longleftrightarrow> list_all (\<lambda>c. \<not> is_surrogate c) s"

text \<open>
  Exceptions, each with the text \<open>str(e)\<close> renders. \<open>InvalidTag\<close> is the integrity error of
  the \<open>cryptography\<close> package; \<open>LibraryError\<close> stands for any other exception of an external
  library (base64, json, the camera, the Face++ client). The texts of \<open>TypeError\<close>,
  \<open>AttributeError\<close> and \<open>UnicodeEncodeError\<close>, which the interpreter composes, are left
  empty.
\<close>

datatype exn =
    ValueError pystr
  | KeyError pystr
  | TypeError pystr
  | AttributeError pystr
  | UnicodeEncodeError pystr
  | InvalidTag
  | FaceRecognitionError pystr
  | LibraryError pystr

fun str_exn :: "exn \<Rightarrow> pystr" where
  "str_exn (ValueError m) = m"
| "str_exn (KeyError k) = [39] @ k @ [39]"
| "str_exn (TypeError m) = m"
| "str_exn (AttributeError m) = m"
| "str_exn (UnicodeEncodeError m) = m"
| "str_exn InvalidTag = []"
| "str_exn (FaceRecognitionError m) = m"
| "str_exn (LibraryError m) = m"

text \<open>
  The values \<open>json.loads\<close> produces. A \<open>dict\<close> is an association list; lookup takes the
  first binding of a key (the decoder leaves one binding for each key).
\<close>

datatype json =
    JNull
  | JBool bool
  | JInt int
  | JFloat real
  | JStr pystr
  | JList "json list"
  | JObj "(pystr \<times> json) list"

text \<open>Truth value testing, as \<open>if x\<close> and \<open>not x\<close> do it.\<close>

fun truthy :: "json \<Rightarrow> bool" where
  "truthy JNull = False"
| "truthy (JBool b) = b"
| "truthy (JInt n) = (n \<noteq> 0)"
| "truthy (JFloat r) = (r \<noteq> 0)"
| "truthy (JStr s) = (s \<noteq> [])"
| "truthy (JList xs) = (xs \<noteq> [])"
| "truthy (JObj kvs) = (kvs \<noteq> [])"

text \<open>\<open>d.get(k, default)\<close> and \<open>d[k]\<close>.\<close>

definition dict_get :: "(pystr \<times> json) list \<Rightarrow> pystr \<Rightarrow> json \<Rightarrow> json" where
  "dict_get d k dflt = (case map_of d k of None \<Rightarrow> dflt | Some v \<Rightarrow> v)"

definition dict_item :: "(pystr \<times> json) list \<Rightarrow> pystr \<Rightarrow> exn + json" where
  "dict_item d k = (case map_of d k of None \<Rightarrow> Inl (KeyError k) | Some v \<Rightarrow> Inr v)"

text \<open>\<open>x == n\<close> for a decoded value and an \<open>int\<close>: numbers compare by value, \<open>True\<close> is 1.\<close>

fun py_eq_int :: "json \<Rightarrow> int \<Rightarrow> bool" where
  "py_eq_int (JInt m) n = (m = n)"
| "py_eq_int (JBool b) n = ((if b then 1 else 0) = n)"
| "py_eq_int (JFloat r) n = (r = of_int n)"
| "py_eq_int _ n = False"

section \<open>External libraries\<close>

text \<open>
  The functions of packages outside the repository are parameters of the model:
  PBKDF2-HMAC-SHA256 and AES-GCM of \<open>cryptography\<close>, \<open>base64\<close>, \<open>json\<close> together with the
  UTF-8 codec, and the float formatting of f-strings. \<open>aesgcm_decrypt\<close> returns \<open>None\<close>
  where the library raises \<open>InvalidTag\<close>; the decoders return the exception they raise.
  \<open>pbkdf2_hmac_sha256\<close> is \<open>kdf.derive\<close> on the UTF-8 bytes of a password that has an
  encoding. \<open>json_dumps\<close> is \<open>json.dumps(..., ensure_ascii=False, indent=2)\<close> followed by
  \<open>encode('utf-8')\<close>, which raises when a string of the record has no encoding.
\<close>

record lib =
  pbkdf2_hmac_sha256 :: "pystr \<Rightarrow> bytes \<Rightarrow> int \<Rightarrow> bytes"
  b64encode :: "bytes \<Rightarrow> pystr"
  b64decode :: "pystr \<Rightarrow> exn + bytes"
  aesgcm_encrypt :: "bytes \<Rightarrow> bytes \<Rightarrow> bytes \<Rightarrow> bytes option \<Rightarrow> bytes"
  aesgcm_decrypt :: "bytes \<Rightarrow> bytes \<Rightarrow> bytes \<Rightarrow> bytes option \<Rightarrow> bytes option"
  json_dumps :: "json \<Rightarrow> exn + bytes"
  json_loads :: "bytes \<Rightarrow> exn + json"
  format_4f :: "real \<Rightarrow> pystr"
  str_float :: "real \<Rightarrow> pystr"

section \<open>config/app\_config.py\<close>

definition PBKDF2_ITERATIONS :: int where
  "PBKDF2_ITERATIONS = 200000"

definition SALT_LENGTH :: nat where
  "SALT_LENGTH = 32"

section \<open>security/crypto.py\<close>

text \<open>
  \<open>derive_key_from_password(password, salt, iterations)\<close>: the password is encoded with
  \<open>password.encode('utf-8')\<close>, which raises on a lone surrogate, and derived.
\<close>

definition derive_key_from_password :: "lib \<Rightarrow> pystr \<Rightarrow> bytes \<Rightarrow> int \<Rightarrow> exn + bytes" where
  "derive_key_from_password L password salt iterations =
     (if utf8_encodable password then Inr (pbkdf2_hmac_sha256 L password salt iterations)
      else Inl (UnicodeEncodeError []))"

text \<open>\<open>"\\u5bc6\\u94a5\\u957f\\u5ea6\\u5fc5\\u987b\\u4e3a32\\u5b57\\u8282\\uff08AES-256\\uff09"\<close>\<close>

definition msg_key_length :: pystr where
  "msg_key_length = [23494, 38053, 38271, 24230, 24517, 39035, 20026, 51, 50, 23383, 33410,
     65288, 65, 69, 83, 45, 50, 53, 54, 65289]"

text \<open>\<open>"IV\\u957f\\u5ea6\\u5fc5\\u987b\\u4e3a12\\u5b57\\u8282"\<close>\<close>

definition msg_iv_length :: pystr where
  "msg_iv_length = [73, 86, 38271, 24230, 24517, 39035, 20026, 49, 50, 23383, 33410]"

text \<open>\<open>"Tag\\u957f\\u5ea6\\u5fc5\\u987b\\u4e3a16\\u5b57\\u8282"\<close>\<close>

definition msg_tag_length :: pystr where
  "msg_tag_length = [84, 97, 103, 38271, 24230, 24517, 39035, 20026, 49, 54, 23383, 33410]"

text \<open>
  \<open>encrypt_aes_gcm(key, plaintext, aad)\<close>. The nonce \<open>os.urandom(12)\<close> is the argument
  \<open>iv\<close>. The slices \<open>[:-16]\<close> and \<open>[-16:]\<close> of Python are \<open>take\<close> and \<open>drop\<close> at
  \<open>length - 16\<close>, where the subtraction of \<open>nat\<close> stops at 0 as the slice does.
\<close>

definition encrypt_aes_gcm ::
  "lib \<Rightarrow> bytes \<Rightarrow> bytes \<Rightarrow> bytes \<Rightarrow> bytes option \<Rightarrow> exn + (bytes \<times> bytes \<times> bytes)" where
  "encrypt_aes_gcm L key iv plaintext aad =
     (if length key \<noteq> 32 then Inl (ValueError msg_key_length)
      else
        let ciphertext_with_tag = aesgcm_encrypt L key iv plaintext aad;
            ciphertext = take (length ciphertext_with_tag - 16) ciphertext_with_tag;
            tag = drop (length ciphertext_with_tag - 16) ciphertext_with_tag
        in Inr (iv, ciphertext, tag))"

definition decrypt_aes_gcm ::
  "lib \<Rightarrow> bytes \<Rightarrow> bytes \<Rightarrow> bytes \<Rightarrow> bytes \<Rightarrow> bytes option \<Rightarrow> exn + bytes" where
  "decrypt_aes_gcm L key iv ciphertext tag aad =
     (if length key \<noteq> 32 then Inl (ValueError msg_key_length)
      else if length iv \<noteq> 12 then Inl (ValueError msg_iv_length)
      else if length tag \<noteq> 16 then Inl (ValueError msg_tag_length)
      else
        let ciphertext_with_tag = ciphertext @ tag
        in case aesgcm_decrypt L key iv ciphertext_with_tag aad of
             None \<Rightarrow> Inl InvalidTag
           | Some plaintext \<Rightarrow> Inr plaintext)"

section \<open>storage/models.py\<close>

text \<open>
  The dataclasses, with the field types of their annotations; \<open>face_embedding\<close> is kept
  as the decoded value it is (the source stores the two-element list
  \<open>["FACEPP_IMAGE", hex]\<close> there), \<open>JNull\<close> for \<open>None\<close>. The field \<open>id\<close> of \<open>User\<close> is
  \<open>user_id\<close>.
\<close>

record User =
  username :: pystr
  salt :: pystr
  password_hash :: pystr
  face_enabled :: bool
  face_embedding :: json
  face_image_data :: "bytes option"
  user_id :: "int option"

record SystemConfig =
  force_mfa :: bool
  face_threshold :: real
  hash_algorithm :: pystr
  encryption_algorithm :: pystr
  pbkdf2_iterations :: int

record DataModel =
  version :: int
  users :: "User list"
  config :: SystemConfig

text \<open>The keys of the stored record.\<close>

definition k_id :: pystr where "k_id = [105, 100]"
definition k_username :: pystr where "k_username = [117, 115, 101, 114, 110, 97, 109, 101]"
definition k_salt :: pystr where "k_salt = [115, 97, 108, 116]"
definition k_password_hash :: pystr where
  "k_password_hash = [112, 97, 115, 115, 119, 111, 114, 100, 95, 104, 97, 115, 104]"
definition k_face_enabled :: pystr where
  "k_face_enabled = [102, 97, 99, 101, 95, 101, 110, 97, 98, 108, 101, 100]"
definition k_face_embedding :: pystr where
  "k_face_embedding = [102, 97, 99, 101, 95, 101, 109, 98, 101, 100, 100, 105, 110, 103]"
definition k_face_image_data :: pystr where
  "k_face_image_data = [102, 97, 99, 101, 95, 105, 109, 97, 103, 101, 95, 100, 97, 116, 97]"
definition k_version :: pystr where "k_version = [118, 101, 114, 115, 105, 111, 110]"
definition k_users :: pystr where "k_users = [117, 115, 101, 114, 115]"
definition k_config :: pystr where "k_config = [99, 111, 110, 102, 105, 103]"
definition k_force_mfa :: pystr where
  "k_force_mfa = [102, 111, 114, 99, 101, 95, 109, 102, 97]"
definition k_face_threshold :: pystr where
  "k_face_threshold = [102, 97, 99, 101, 95, 116, 104, 114, 101, 115, 104, 111, 108, 100]"
definition k_hash_algorithm :: pystr where
  "k_hash_algorithm = [104, 97, 115, 104, 95, 97, 108, 103, 111, 114, 105, 116, 104, 109]"
definition k_encryption_algorithm :: pystr where
  "k_encryption_algorithm = [101, 110, 99, 114, 121, 112, 116, 105, 111, 110, 95, 97, 108,
     103, 111, 114, 105, 116, 104, 109]"
definition k_pbkdf2_iterations :: pystr where
  "k_pbkdf2_iterations = [112, 98, 107, 100, 102, 50, 95, 105, 116, 101, 114, 97, 116, 105,
     111, 110, 115]"

text \<open>\<open>"PBKDF2-HMAC-SHA256"\<close> and \<open>"AES-256-GCM"\<close>.\<close>

definition HASH_ALGORITHM :: pystr where
  "HASH_ALGORITHM = [80, 66, 75, 68, 70, 50, 45, 72, 77, 65, 67, 45, 83, 72, 65, 50, 53, 54]"

definition ENCRYPTION_ALGORITHM :: pystr where
  "ENCRYPTION_ALGORITHM = [65, 69, 83, 45, 50, 53, 54, 45, 71, 67, 77]"

text \<open>\<open>SystemConfig()\<close>: the defaults of the dataclass.\<close>

definition SystemConfig_default :: SystemConfig where
  "SystemConfig_default =
     \<lparr>force_mfa = True, face_threshold = 1 / 2, hash_algorithm = HASH_ALGORITHM,
      encryption_algorithm = ENCRYPTION_ALGORITHM, pbkdf2_iterations = 200000\<rparr>"

definition User_to_dict :: "lib \<Rightarrow> User \<Rightarrow> json" where
  "User_to_dict L u = JObj
     [(k_id, case user_id u of None \<Rightarrow> JNull | Some i \<Rightarrow> JInt i),
      (k_username, JStr (username u)),
      (k_salt, JStr (salt u)),
      (k_password_hash, JStr (password_hash u)),
      (k_face_enabled, JBool (face_enabled u)),
      (k_face_embedding, face_embedding u),
      (k_face_image_data,
         case face_image_data u of
           None \<Rightarrow> JNull
         | Some b \<Rightarrow> if b \<noteq> [] then JStr (b64encode L b) else JNull)]"

definition SystemConfig_to_dict :: "SystemConfig \<Rightarrow> json" where
  "SystemConfig_to_dict c = JObj
     [(k_force_mfa, JBool (force_mfa c)),
      (k_face_threshold, JFloat (face_threshold c)),
      (k_hash_algorithm, JStr (hash_algorithm c)),
      (k_encryption_algorithm, JStr (encryption_algorithm c)),
      (k_pbkdf2_iterations, JInt (pbkdf2_iterations c))]"

definition DataModel_to_dict :: "lib \<Rightarrow> DataModel \<Rightarrow> json" where
  "DataModel_to_dict L m = JObj
     [(k_version, JInt (version m)),
      (k_users, JList (map (User_to_dict L) (users m))),
      (k_config, SystemConfig_to_dict (config m))]"

text \<open>
  The \<open>from_dict\<close> constructors. Python stores whatever value the record holds; the dataclass
  fields are typed here, so a value of another JSON type than the annotation is reported as
  \<open>TypeError\<close> at construction. \<open>to_dict\<close> writes the annotated types only, so a file the
  program wrote never takes those branches.
\<close>

definition as_str :: "json \<Rightarrow> exn + pystr" where
  "as_str v = (case v of JStr s \<Rightarrow> Inr s | _ \<Rightarrow> Inl (TypeError []))"

definition as_bool :: "json \<Rightarrow> exn + bool" where
  "as_bool v = (case v of JBool b \<Rightarrow> Inr b | _ \<Rightarrow> Inl (TypeError []))"

definition as_int :: "json \<Rightarrow> exn + int" where
  "as_int v = (case v of JInt n \<Rightarrow> Inr n | _ \<Rightarrow> Inl (TypeError []))"

definition as_float :: "json \<Rightarrow> exn + real" where
  "as_float v = (case v of JFloat r \<Rightarrow> Inr r | JInt n \<Rightarrow> Inr (of_int n) | _ \<Rightarrow> Inl (TypeError []))"

definition as_optional_int :: "json \<Rightarrow> exn + int option" where
  "as_optional_int v =
     (case v of JNull \<Rightarrow> Inr None | JInt n \<Rightarrow> Inr (Some n) | _ \<Rightarrow> Inl (TypeError []))"

text \<open>Sequencing of computations that may raise.\<close>

definition bind_exn :: "exn + 'a \<Rightarrow> ('a \<Rightarrow> exn + 'b) \<Rightarrow> exn + 'b" where
  "bind_exn r f = (case r of Inl e \<Rightarrow> Inl e | Inr x \<Rightarrow> f x)"

definition User_from_dict :: "lib \<Rightarrow> json \<Rightarrow> exn + User" where
  "User_from_dict L data =
     (case data of
        JObj d \<Rightarrow>
          let image = (if truthy (dict_get d k_face_image_data JNull)
                       then (case dict_get d k_face_image_data JNull of
                               JStr s \<Rightarrow> (case b64decode L s of Inl e \<Rightarrow> None | Inr b \<Rightarrow> Some b)
                             | _ \<Rightarrow> None)
                       else None)
          in bind_exn (dict_item d k_username) (\<lambda>v_username.
             bind_exn (dict_item d k_salt) (\<lambda>v_salt.
             bind_exn (dict_item d k_password_hash) (\<lambda>v_hash.
             bind_exn (as_optional_int (dict_get d k_id JNull)) (\<lambda>i.
             bind_exn (as_str v_username) (\<lambda>n.
             bind_exn (as_str v_salt) (\<lambda>s.
             bind_exn (as_str v_hash) (\<lambda>h.
             bind_exn (as_bool (dict_get d k_face_enabled (JBool False))) (\<lambda>fe.
               Inr \<lparr>username = n, salt = s, password_hash = h, face_enabled = fe,
                    face_embedding = dict_get d k_face_embedding JNull,
                    face_image_data = image, user_id = i\<rparr>))))))))
      | _ \<Rightarrow> Inl (AttributeError []))"

definition SystemConfig_from_dict :: "json \<Rightarrow> exn + SystemConfig" where
  "SystemConfig_from_dict data =
     (case data of
        JObj d \<Rightarrow>
          bind_exn (as_bool (dict_get d k_force_mfa (JBool True))) (\<lambda>fm.
          bind_exn (as_float (dict_get d k_face_threshold (JFloat (1 / 2)))) (\<lambda>ft.
          bind_exn (as_str (dict_get d k_hash_algorithm (JStr HASH_ALGORITHM))) (\<lambda>ha.
          bind_exn (as_str (dict_get d k_encryption_algorithm (JStr ENCRYPTION_ALGORITHM))) (\<lambda>ea.
          bind_exn (as_int (dict_get d k_pbkdf2_iterations (JInt 200000))) (\<lambda>it.
            Inr \<lparr>force_mfa = fm, face_threshold = ft, hash_algorithm = ha,
                 encryption_algorithm = ea, pbkdf2_iterations = it\<rparr>)))))
      | _ \<Rightarrow> Inl (AttributeError []))"

text \<open>The list comprehension over the stored users stops at the first one that raises.\<close>

fun from_dict_all :: "lib \<Rightarrow> json list \<Rightarrow> exn + User list" where
  "from_dict_all L [] = Inr []"
| "from_dict_all L (x # xs) =
     bind_exn (User_from_dict L x) (\<lambda>u.
     bind_exn (from_dict_all L xs) (\<lambda>us. Inr (u # us)))"

definition DataModel_from_dict :: "lib \<Rightarrow> json \<Rightarrow> exn + DataModel" where
  "DataModel_from_dict L data =
     (case data of
        JObj d \<Rightarrow>
          bind_exn (as_int (dict_get d k_version (JInt 1))) (\<lambda>v.
          bind_exn (case dict_get d k_users (JList []) of
                      JList xs \<Rightarrow> from_dict_all L xs
                    | _ \<Rightarrow> Inl (TypeError [])) (\<lambda>us.
          bind_exn (SystemConfig_from_dict (dict_get d k_config (JObj []))) (\<lambda>c.
            Inr \<lparr>version = v, users = us, config = c\<rparr>)))
      | _ \<Rightarrow> Inl (AttributeError []))"

section \<open>storage/schema\_migration.py\<close>

definition CURRENT_VERSION :: int where
  "CURRENT_VERSION = 1"

text \<open>
  \<open>SchemaMigration.migrate(data)\<close>: the version is read with default 1; a record at the
  current version is returned at once; the upgrade steps are comments in the source, and
  the function ends with \<open>return data\<close>. A value that is not a \<open>dict\<close> has no \<open>get\<close>.
\<close>

definition migrate :: "json \<Rightarrow> exn + json" where
  "migrate data =
     (case data of
        JObj d \<Rightarrow>
          let version = dict_get d k_version (JInt 1)
          in if py_eq_int version CURRENT_VERSION then Inr data
             else Inr data
      | _ \<Rightarrow> Inl (AttributeError []))"

definition validate_version :: "int \<Rightarrow> bool" where
  "validate_version v \<longleftrightarrow> 1 \<le> v \<and> v \<le> CURRENT_VERSION"

section \<open>storage/file\_repository.py\<close>

text \<open>
  The repository object with its three attributes and, as \<open>data_bin\<close>, the content of the
  file at \<open>DATA_BIN_PATH\<close> (\<open>None\<close> when the file does not exist). Every method takes the
  repository and returns it updated, beside what it returns or raises. A method that writes
  the file takes the fresh nonce of that write as \<open>iv\<close>. Failures of the file system itself
  are not modelled.
\<close>

record FileRepository =
  data_model :: "DataModel option"
  data_key :: "bytes option"
  next_user_id :: int
  data_bin :: "bytes option"

definition FileRepository_init :: "bytes option \<Rightarrow> FileRepository" where
  "FileRepository_init file =
     \<lparr>data_model = None, data_key = None, next_user_id = 1, data_bin = file\<rparr>"

text \<open>\<open>"\\u6570\\u636e\\u6a21\\u578b\\u672a\\u521d\\u59cb\\u5316"\<close>\<close>

definition msg_model_uninitialised :: pystr where
  "msg_model_uninitialised = [25968, 25454, 27169, 22411, 26410, 21021, 22987, 21270]"

text \<open>\<open>"\\u6570\\u636e\\u5bc6\\u94a5\\u672a\\u8bbe\\u7f6e"\<close>\<close>

definition msg_key_unset :: pystr where
  "msg_key_unset = [25968, 25454, 23494, 38053, 26410, 35774, 32622]"

text \<open>
  \<open>"data.bin \\u6587\\u4ef6\\u683c\\u5f0f\\u9519\\u8bef\\uff1a\\u6587\\u4ef6\\u592a\\u5c0f"\<close>
\<close>

definition msg_file_too_small :: pystr where
  "msg_file_too_small = [100, 97, 116, 97, 46, 98, 105, 110, 32, 25991, 20214, 26684, 24335,
     38169, 35823, 65306, 25991, 20214, 22826, 23567]"

text \<open>\<open>f"\\u7528\\u6237\\u540d '{name}' \\u5df2\\u5b58\\u5728"\<close>\<close>

definition msg_username_exists :: "pystr \<Rightarrow> pystr" where
  "msg_username_exists name = [29992, 25143, 21517, 32, 39] @ name @ [39, 32, 24050, 23384, 22312]"

text \<open>\<open>f"\\u7528\\u6237 '{name}' \\u4e0d\\u5b58\\u5728"\<close>\<close>

definition msg_user_missing :: "pystr \<Rightarrow> pystr" where
  "msg_user_missing name = [29992, 25143, 32, 39] @ name @ [39, 32, 19981, 23384, 22312]"

text \<open>\<open>"max() arg is an empty sequence"\<close>, the text of the \<open>ValueError\<close> of \<open>max\<close>.\<close>

definition msg_max_empty :: pystr where
  "msg_max_empty = [109, 97, 120, 40, 41, 32, 97, 114, 103, 32, 105, 115, 32, 97, 110, 32,
     101, 109, 112, 116, 121, 32, 115, 101, 113, 117, 101, 110, 99, 101]"

definition save_data :: "lib \<Rightarrow> bytes \<Rightarrow> FileRepository \<Rightarrow> (exn + unit) \<times> FileRepository" where
  "save_data L iv r =
     (case data_model r of
        None \<Rightarrow> (Inl (ValueError msg_model_uninitialised), r)
      | Some m \<Rightarrow>
          (case data_key r of
             None \<Rightarrow> (Inl (ValueError msg_key_unset), r)
           | Some key \<Rightarrow>
               (case json_dumps L (DataModel_to_dict L m) of
                  Inl e \<Rightarrow> (Inl e, r)
                | Inr plaintext \<Rightarrow>
                    (case encrypt_aes_gcm L key iv plaintext None of
                       Inl e \<Rightarrow> (Inl e, r)
                     | Inr (iv', ciphertext, tag) \<Rightarrow>
                         (Inr (), r\<lparr>data_bin := Some (iv' @ ciphertext @ tag)\<rparr>)))))"

definition get_user_by_username :: "FileRepository \<Rightarrow> pystr \<Rightarrow> User option" where
  "get_user_by_username r name =
     (case data_model r of
        None \<Rightarrow> None
      | Some m \<Rightarrow> find (\<lambda>u. username u = name) (users m))"

definition get_all_users :: "FileRepository \<Rightarrow> User list" where
  "get_all_users r = (case data_model r of None \<Rightarrow> [] | Some m \<Rightarrow> users m)"

definition get_system_config :: "FileRepository \<Rightarrow> SystemConfig" where
  "get_system_config r = (case data_model r of None \<Rightarrow> SystemConfig_default | Some m \<Rightarrow> config m)"

text \<open>The generator \<open>(u.id for u in users if u.id)\<close>: the ids that are neither \<open>None\<close> nor 0.\<close>

fun truthy_ids :: "User list \<Rightarrow> int list" where
  "truthy_ids [] = []"
| "truthy_ids (u # us) =
     (case user_id u of
        None \<Rightarrow> truthy_ids us
      | Some i \<Rightarrow> if i \<noteq> 0 then i # truthy_ids us else truthy_ids us)"

text \<open>
  \<open>load_data(data_key)\<close>. The key is stored first. Without a file an empty model is created
  and saved. With a file, the framing is checked, the three parts are cut out, and the
  \<open>try\<close> block decrypts, decodes, migrates and constructs the model; its handler catches
  \<open>InvalidTag\<close> only and raises it again, so every exception of the block leaves the method.
  The model is assigned before the next id is computed: \<open>max\<close> over the ids that are
  neither \<open>None\<close> nor 0 raises when there is none.
\<close>

definition load_data ::
  "lib \<Rightarrow> bytes \<Rightarrow> bytes \<Rightarrow> FileRepository \<Rightarrow> (exn + unit) \<times> FileRepository" where
  "load_data L iv key r0 =
     (let r = r0\<lparr>data_key := Some key\<rparr> in
      case data_bin r of
        None \<Rightarrow>
          save_data L iv
            (r\<lparr>data_model := Some \<lparr>version = 1, users = [], config = SystemConfig_default\<rparr>\<rparr>)
      | Some encrypted_data \<Rightarrow>
          if length encrypted_data < 28 then (Inl (ValueError msg_file_too_small), r)
          else
            let n = length encrypted_data;
                iv_file = take 12 encrypted_data;
                tag = drop (n - 16) encrypted_data;
                ciphertext = drop 12 (take (n - 16) encrypted_data)
            in (case decrypt_aes_gcm L key iv_file ciphertext tag None of
                 Inl e \<Rightarrow> (Inl e, r)
               | Inr plaintext \<Rightarrow>
                   (case bind_exn (json_loads L plaintext) (\<lambda>data_dict.
                         bind_exn (migrate data_dict) (DataModel_from_dict L)) of
                      Inl e \<Rightarrow> (Inl e, r)
                    | Inr m \<Rightarrow>
                        let r1 = r\<lparr>data_model := Some m\<rparr> in
                        if users m \<noteq> [] then
                          (case truthy_ids (users m) of
                             [] \<Rightarrow> (Inl (ValueError msg_max_empty), r1)
                           | i # ids \<Rightarrow> (Inr (), r1\<lparr>next_user_id := Max (set (i # ids)) + 1\<rparr>))
                        else (Inr (), r1))))"

text \<open>
  \<open>save_user(user)\<close>. The method mutates the object it is given (the id) and appends that
  same object, so the user as it is after the call is returned too. The duplicate check
  comes before any mutation; the id, the append and the counter are in place before
  \<open>save_data\<close> runs, also when \<open>save_data\<close> raises.
\<close>

definition save_user ::
  "lib \<Rightarrow> bytes \<Rightarrow> FileRepository \<Rightarrow> User \<Rightarrow> (exn + unit) \<times> User \<times> FileRepository" where
  "save_user L iv r user =
     (case data_model r of
        None \<Rightarrow> (Inl (ValueError msg_model_uninitialised), user, r)
      | Some m \<Rightarrow>
          (case get_user_by_username r (username user) of
             Some existing_user \<Rightarrow> (Inl (ValueError (msg_username_exists (username user))), user, r)
           | None \<Rightarrow>
               let user1 = (case user_id user of
                              None \<Rightarrow> user\<lparr>user_id := Some (next_user_id r)\<rparr>
                            | Some i \<Rightarrow> user);
                   r1 = (case user_id user of
                           None \<Rightarrow> r\<lparr>next_user_id := next_user_id r + 1\<rparr>
                         | Some i \<Rightarrow> r);
                   r2 = r1\<lparr>data_model := Some (m\<lparr>users := users m @ [user1]\<rparr>)\<rparr>;
                   saved = save_data L iv r2
               in (fst saved, user1, snd saved)))"

text \<open>The loops of \<open>update_user\<close> and \<open>delete_user\<close> act on the first user of that name.\<close>

fun replace_first :: "pystr \<Rightarrow> User \<Rightarrow> User list \<Rightarrow> User list option" where
  "replace_first name user [] = None"
| "replace_first name user (x # xs) =
     (if username x = name then Some (user # xs)
      else map_option ((#) x) (replace_first name user xs))"

fun delete_first :: "pystr \<Rightarrow> User list \<Rightarrow> User list option" where
  "delete_first name [] = None"
| "delete_first name (x # xs) =
     (if username x = name then Some xs
      else map_option ((#) x) (delete_first name xs))"


definition delete_user ::
  "lib \<Rightarrow> bytes \<Rightarrow> FileRepository \<Rightarrow> pystr \<Rightarrow> (exn + unit) \<times> FileRepository" where
  "delete_user L iv r name =
     (case data_model r of
        None \<Rightarrow> (Inl (ValueError msg_model_uninitialised), r)
      | Some m \<Rightarrow>
          (case delete_first name (users m) of
             None \<Rightarrow> (Inl (ValueError (msg_user_missing name)), r)
           | Some us \<Rightarrow> save_data L iv (r\<lparr>data_model := Some (m\<lparr>users := us\<rparr>)\<rparr>)))"

definition save_system_config ::
  "lib \<Rightarrow> bytes \<Rightarrow> FileRepository \<Rightarrow> SystemConfig \<Rightarrow> (exn + unit) \<times> FileRepository" where
  "save_system_config L iv r c =
     (case data_model r of
        None \<Rightarrow> (Inl (ValueError msg_model_uninitialised), r)
      | Some m \<Rightarrow> save_data L iv (r\<lparr>data_model := Some (m\<lparr>config := c\<rparr>)\<rparr>))"

section \<open>core/logging\_service.py\<close>

text \<open>
  The kinds of \<open>AuthEvent\<close>, and \<open>MFA_SUCCESS\<close>, which \<open>authenticate_user\<close> passes as a plain
  string. An entry of the log file is the username, the kind and the reason of one call of
  \<open>log_auth_event\<close>; its timestamp is left out. The log is the list of the entries written,
  oldest first. The file is opened with \<open>encoding='utf-8'\<close>: the write of a line whose
  username or reason has no encoding raises and appends nothing. Output to the console
  (\<open>print\<close>) is left out; it is taken to succeed.
\<close>

datatype AuthEvent =
    SUCCESS
  | FAIL_WRONG_PASSWORD
  | FAIL_USER_NOT_FOUND
  | FAIL_FACE_MISMATCH
  | FAIL_DATA_INTEGRITY
  | PASSWORD_CHANGED
  | USER_REGISTERED
  | MFA_SUCCESS

record log_entry =
  log_username :: pystr
  log_result :: AuthEvent
  log_reason :: pystr

text \<open>The process state the services act on: the repository singleton and the log file.\<close>

record world =
  repo :: FileRepository
  auth_log :: "log_entry list"

definition log_auth_event :: "world \<Rightarrow> pystr \<Rightarrow> AuthEvent \<Rightarrow> pystr \<Rightarrow> exn + world" where
  "log_auth_event w name kind reason =
     (if utf8_encodable name \<and> utf8_encodable reason then
        Inr (w\<lparr>auth_log := auth_log w
               @ [\<lparr>log_username = name, log_result = kind, log_reason = reason\<rparr>]\<rparr>)
      else Inl (UnicodeEncodeError []))"

text \<open>\<open>log_auth_event(username, AuthEvent.SUCCESS, "\\u767b\\u5f55\\u6210\\u529f")\<close>\<close>

definition log_login_success :: "world \<Rightarrow> pystr \<Rightarrow> exn + world" where
  "log_login_success w name = log_auth_event w name SUCCESS [30331, 24405, 25104, 21151]"

text \<open>\<open>"\\u53e3\\u4ee4\\u9519\\u8bef"\<close>\<close>

definition log_login_fail_password :: "world \<Rightarrow> pystr \<Rightarrow> exn + world" where
  "log_login_fail_password w name =
     log_auth_event w name FAIL_WRONG_PASSWORD [21475, 20196, 38169, 35823]"

text \<open>\<open>"\\u7528\\u6237\\u4e0d\\u5b58\\u5728"\<close>\<close>

definition log_login_fail_user_not_found :: "world \<Rightarrow> pystr \<Rightarrow> exn + world" where
  "log_login_fail_user_not_found w name =
     log_auth_event w name FAIL_USER_NOT_FOUND [29992, 25143, 19981, 23384, 22312]"

text \<open>\<open>"\\u4eba\\u8138\\u6bd4\\u5bf9\\u5931\\u8d25"\<close>\<close>

definition log_login_fail_face :: "world \<Rightarrow> pystr \<Rightarrow> exn + world" where
  "log_login_fail_face w name =
     log_auth_event w name FAIL_FACE_MISMATCH [20154, 33080, 27604, 23545, 22833, 36133]"


text \<open>\<open>"\\u7528\\u6237\\u6ce8\\u518c\\u6210\\u529f"\<close>\<close>

definition log_user_registered :: "world \<Rightarrow> pystr \<Rightarrow> exn + world" where
  "log_user_registered w name =
     log_auth_event w name USER_REGISTERED [29992, 25143, 27880, 20876, 25104, 21151]"

section \<open>security/face\_recognizer.py\<close>

text \<open>
  The camera and the Face++ service are outside the repository. \<open>capture_and_extract_face\<close>
  is what one call of that function returns or raises. \<open>compare_faces_facepp\<close> stands for
  the body of the \<open>try\<close> block of \<open>compute_distance\<close> up to the confidence: the two payloads
  are decoded from hex and sent to the service, which answers with a confidence; \<open>Inl\<close> is
  any exception raised there.
\<close>

record face_env =
  CV2_AVAILABLE :: bool
  FACEPP_AVAILABLE :: bool
  capture_and_extract_face :: "exn + json"
  compare_faces_facepp :: "json \<Rightarrow> json \<Rightarrow> exn + real"

text \<open>\<open>"FACEPP_IMAGE"\<close>\<close>

definition FACEPP_IMAGE :: pystr where
  "FACEPP_IMAGE = [70, 65, 67, 69, 80, 80, 95, 73, 77, 65, 71, 69]"

text \<open>\<open>"Face++ image data provided but Face++ not available"\<close>\<close>

definition msg_facepp_not_available :: pystr where
  "msg_facepp_not_available = [70, 97, 99, 101, 43, 43, 32, 105, 109, 97, 103, 101, 32, 100,
     97, 116, 97, 32, 112, 114, 111, 118, 105, 100, 101, 100, 32, 98, 117, 116, 32, 70, 97,
     99, 101, 43, 43, 32, 110, 111, 116, 32, 97, 118, 97, 105, 108, 97, 98, 108, 101]"

text \<open>\<open>"Invalid face data format: only Face++ image data is supported"\<close>\<close>

definition msg_invalid_face_format :: pystr where
  "msg_invalid_face_format = [73, 110, 118, 97, 108, 105, 100, 32, 102, 97, 99, 101, 32, 100,
     97, 116, 97, 32, 102, 111, 114, 109, 97, 116, 58, 32, 111, 110, 108, 121, 32, 70, 97,
     99, 101, 43, 43, 32, 105, 109, 97, 103, 101, 32, 100, 97, 116, 97, 32, 105, 115, 32,
     115, 117, 112, 112, 111, 114, 116, 101, 100]"

text \<open>\<open>len(v)\<close> and \<open>v[0]\<close> on a decoded value.\<close>

fun py_len :: "json \<Rightarrow> exn + nat" where
  "py_len (JStr s) = Inr (length s)"
| "py_len (JList xs) = Inr (length xs)"
| "py_len (JObj kvs) = Inr (length kvs)"
| "py_len _ = Inl (TypeError [])"

fun py_first :: "json \<Rightarrow> exn + json" where
  "py_first (JList (x # xs)) = Inr x"
| "py_first (JStr (c # cs)) = Inr (JStr [c])"
| "py_first (JObj kvs) = Inl (KeyError [48])"
| "py_first _ = Inl (TypeError [])"

fun is_str :: "json \<Rightarrow> bool" where
  "is_str (JStr s) = True"
| "is_str _ = False"

text \<open>
  The condition of \<open>compute_distance\<close>, evaluated from left to right as \<open>and\<close> does: both
  have length 2, both first elements are strings, both equal the marker.
\<close>

definition is_facepp_pair :: "json \<Rightarrow> json \<Rightarrow> exn + bool" where
  "is_facepp_pair vec1 vec2 =
     bind_exn (py_len vec1) (\<lambda>n1.
       if n1 \<noteq> 2 then Inr False
       else bind_exn (py_len vec2) (\<lambda>n2.
         if n2 \<noteq> 2 then Inr False
         else bind_exn (py_first vec1) (\<lambda>a.
           if \<not> is_str a then Inr False
           else bind_exn (py_first vec2) (\<lambda>b.
             if \<not> is_str b then Inr False
             else Inr (a = JStr FACEPP_IMAGE \<and> b = JStr FACEPP_IMAGE)))))"

text \<open>
  \<open>compute_distance(vec1, vec2)\<close>. Inside the \<open>try\<close> block the confidence becomes the
  distance \<open>(100 - confidence) / 100.0\<close>; its handler catches every exception and returns
  \<open>1.0\<close>.
\<close>

definition compute_distance :: "face_env \<Rightarrow> json \<Rightarrow> json \<Rightarrow> exn + real" where
  "compute_distance F vec1 vec2 =
     bind_exn (is_facepp_pair vec1 vec2) (\<lambda>facepp.
       if facepp then
         (if FACEPP_AVAILABLE F then
            (case (vec1, vec2) of
               (JList [m1, image1], JList [m2, image2]) \<Rightarrow>
                 (case compare_faces_facepp F image1 image2 of
                    Inl e \<Rightarrow> Inr 1
                  | Inr confidence \<Rightarrow> Inr ((100 - confidence) / 100))
             | _ \<Rightarrow> Inl (TypeError []))
          else Inl (ValueError msg_facepp_not_available))
       else Inl (ValueError msg_invalid_face_format))"

text \<open>
  \<open>"OpenCV not installed"\<close>, \<open>"Face++ API not configured or unavailable"\<close>,
  \<open>"Face++ face recognition features available"\<close>
\<close>

definition is_face_recognition_available :: "face_env \<Rightarrow> bool \<times> pystr" where
  "is_face_recognition_available F =
     (if \<not> CV2_AVAILABLE F then
        (False, [79, 112, 101, 110, 67, 86, 32, 110, 111, 116, 32, 105, 110, 115, 116, 97,
                 108, 108, 101, 100])
      else if \<not> FACEPP_AVAILABLE F then
        (False, [70, 97, 99, 101, 43, 43, 32, 65, 80, 73, 32, 110, 111, 116, 32, 99, 111, 110,
                 102, 105, 103, 117, 114, 101, 100, 32, 111, 114, 32, 117, 110, 97, 118, 97,
                 105, 108, 97, 98, 108, 101])
      else
        (True, [70, 97, 99, 101, 43, 43, 32, 102, 97, 99, 101, 32, 114, 101, 99, 111, 103,
                110, 105, 116, 105, 111, 110, 32, 102, 101, 97, 116, 117, 114, 101, 115, 32,
                97, 118, 97, 105, 108, 97, 98, 108, 101]))"

section \<open>core/auth\_service.py\<close>

record AuthResult =
  success :: bool
  message :: pystr
  user :: "User option"

text \<open>\<open>"\\u7528\\u6237\\u540d\\u4e0d\\u80fd\\u4e3a\\u7a7a"\<close>\<close>

definition msg_username_empty :: pystr where
  "msg_username_empty = [29992, 25143, 21517, 19981, 33021, 20026, 31354]"

text \<open>\<open>"\\u5bc6\\u7801\\u957f\\u5ea6\\u81f3\\u5c116\\u4f4d"\<close>\<close>

definition msg_password_short :: pystr where
  "msg_password_short = [23494, 30721, 38271, 24230, 33267, 23569, 54, 20301]"

text \<open>\<open>f"\\u7528\\u6237 '{name}' \\u6ce8\\u518c\\u6210\\u529f"\<close>\<close>

definition msg_registered :: "pystr \<Rightarrow> pystr" where
  "msg_registered name = [29992, 25143, 32, 39] @ name @ [39, 32, 27880, 20876, 25104, 21151]"

text \<open>\<open>f"\\u6ce8\\u518c\\u5931\\u8d25: {str(e)}"\<close>\<close>

definition msg_register_failed :: "exn \<Rightarrow> pystr" where
  "msg_register_failed e = [27880, 20876, 22833, 36133, 58, 32] @ str_exn e"

text \<open>\<open>"\\u7528\\u6237\\u540d\\u548c\\u5bc6\\u7801\\u4e0d\\u80fd\\u4e3a\\u7a7a"\<close>\<close>

definition msg_credentials_empty :: pystr where
  "msg_credentials_empty = [29992, 25143, 21517, 21644, 23494, 30721, 19981, 33021, 20026, 31354]"

text \<open>\<open>"\\u7528\\u6237\\u540d\\u6216\\u5bc6\\u7801\\u9519\\u8bef"\<close>\<close>

definition msg_wrong_credentials :: pystr where
  "msg_wrong_credentials = [29992, 25143, 21517, 25110, 23494, 30721, 38169, 35823]"

text \<open>\<open>f"\\u7528\\u6237 '{name}' \\u767b\\u5f55\\u6210\\u529f"\<close>\<close>

definition msg_login_ok :: "pystr \<Rightarrow> pystr" where
  "msg_login_ok name = [29992, 25143, 32, 39] @ name @ [39, 32, 30331, 24405, 25104, 21151]"

text \<open>\<open>f"\\u8ba4\\u8bc1\\u5931\\u8d25: {str(e)}"\<close>\<close>

definition msg_auth_failed :: "exn \<Rightarrow> pystr" where
  "msg_auth_failed e = [35748, 35777, 22833, 36133, 58, 32] @ str_exn e"

text \<open>
  \<open>"\\u7cfb\\u7edf\\u8981\\u6c42\\u53cc\\u56e0\\u7d20\\u8ba4\\u8bc1\\uff0c\\u4f46\\u7528\\u6237\\u672a\\u5f55\\u5165\\u4eba\\u8138"\<close>:
  the system requires two factors, but the user has enrolled no face.
\<close>

definition msg_mfa_not_enrolled :: pystr where
  "msg_mfa_not_enrolled = [31995, 32479, 35201, 27714, 21452, 22240, 32032, 35748, 35777,
     65292, 20294, 29992, 25143, 26410, 24405, 20837, 20154, 33080]"

text \<open>\<open>f"\\u4eba\\u8138\\u8bc6\\u522b\\u4e0d\\u53ef\\u7528: {message}"\<close>\<close>

definition msg_face_unavailable :: "pystr \<Rightarrow> pystr" where
  "msg_face_unavailable m = [20154, 33080, 35782, 21035, 19981, 21487, 29992, 58, 32] @ m"

text \<open>\<open>f"\\u4eba\\u8138\\u91c7\\u96c6\\u5931\\u8d25: {str(e)}"\<close>\<close>

definition msg_capture_failed :: "exn \<Rightarrow> pystr" where
  "msg_capture_failed e = [20154, 33080, 37319, 38598, 22833, 36133, 58, 32] @ str_exn e"

text \<open>\<open>f"\\u7528\\u6237 '{name}' \\u53cc\\u56e0\\u7d20\\u8ba4\\u8bc1\\u6210\\u529f"\<close>\<close>

definition msg_mfa_ok :: "pystr \<Rightarrow> pystr" where
  "msg_mfa_ok name =
     [29992, 25143, 32, 39] @ name @ [39, 32, 21452, 22240, 32032, 35748, 35777, 25104, 21151]"

text \<open>\<open>f"\\u53cc\\u56e0\\u7d20\\u8ba4\\u8bc1\\u6210\\u529f (\\u8ddd\\u79bb={distance:.4f})"\<close>\<close>

definition reason_mfa_ok :: "lib \<Rightarrow> real \<Rightarrow> pystr" where
  "reason_mfa_ok L distance =
     [21452, 22240, 32032, 35748, 35777, 25104, 21151, 32, 40, 36317, 31163, 61]
       @ format_4f L distance @ [41]"

text \<open>
  \<open>f"\\u4eba\\u8138\\u9a8c\\u8bc1\\u5931\\u8d25 (\\u8ddd\\u79bb={distance:.4f} > {threshold})"\<close>
\<close>

definition msg_face_mismatch :: "lib \<Rightarrow> real \<Rightarrow> real \<Rightarrow> pystr" where
  "msg_face_mismatch L distance threshold =
     [20154, 33080, 39564, 35777, 22833, 36133, 32, 40, 36317, 31163, 61]
       @ format_4f L distance @ [32, 62, 32] @ str_float L threshold @ [41]"











definition failure :: "pystr \<Rightarrow> AuthResult" where
  "failure m = \<lparr>success = False, message = m, user = None\<rparr>"

text \<open>
  \<open>register_user(username, password)\<close>. \<open>new_salt\<close> is the output of
  \<open>generate_salt(SALT_LENGTH)\<close>. Every exception is caught by the handler of the function
  and becomes a failure result: that of the key derivation before anything is stored, that
  of \<open>save_user\<close> after what \<open>save_user\<close> did to the repository, that of the log entry
  after the user is saved.
\<close>

definition register_user ::
  "lib \<Rightarrow> bytes \<Rightarrow> bytes \<Rightarrow> world \<Rightarrow> pystr \<Rightarrow> pystr \<Rightarrow> AuthResult \<times> world" where
  "register_user L new_salt iv w username0 password =
     (if username0 = [] \<or> strip username0 = [] then (failure msg_username_empty, w)
      else if password = [] \<or> length password < 6 then (failure msg_password_short, w)
      else
        let name = strip username0 in
        (case get_user_by_username (repo w) name of
           Some existing_user \<Rightarrow> (failure (msg_username_exists name), w)
         | None \<Rightarrow>
             (case derive_key_from_password L password new_salt PBKDF2_ITERATIONS of
                Inl e \<Rightarrow> (failure (msg_register_failed e), w)
              | Inr password_hash_bytes \<Rightarrow>
                  let new_user = \<lparr>username = name, salt = b64encode L new_salt,
                                  password_hash = b64encode L password_hash_bytes,
                                  face_enabled = False, face_embedding = JNull,
                                  face_image_data = None, user_id = None\<rparr>
                  in (case save_user L iv (repo w) new_user of
                        (Inl e, user1, r) \<Rightarrow> (failure (msg_register_failed e), w\<lparr>repo := r\<rparr>)
                      | (Inr u, user1, r) \<Rightarrow>
                          (case log_user_registered (w\<lparr>repo := r\<rparr>) name of
                             Inl e \<Rightarrow> (failure (msg_register_failed e), w\<lparr>repo := r\<rparr>)
                           | Inr w' \<Rightarrow>
                               (\<lparr>success = True, message = msg_registered name,
                                 user = Some user1\<rparr>, w'))))))"

text \<open>
  \<open>authenticate_password_only(username, password)\<close>. The stored salt is decoded from
  base64 and the hash of the submitted password is derived; an exception of either, or of
  the write of the log entry, is caught by the handler of the function and becomes the
  failure \<open>msg_auth_failed\<close>.
\<close>

definition authenticate_password_only ::
  "lib \<Rightarrow> world \<Rightarrow> pystr \<Rightarrow> pystr \<Rightarrow> AuthResult \<times> world" where
  "authenticate_password_only L w username0 password =
     (if username0 = [] \<or> password = [] then (failure msg_credentials_empty, w)
      else
        let name = strip username0 in
        (case get_user_by_username (repo w) name of
           None \<Rightarrow>
             (case log_login_fail_user_not_found w name of
                Inl e \<Rightarrow> (failure (msg_auth_failed e), w)
              | Inr w' \<Rightarrow> (failure msg_wrong_credentials, w'))
         | Some u \<Rightarrow>
             (case b64decode L (salt u) of
                Inl e \<Rightarrow> (failure (msg_auth_failed e), w)
              | Inr salt_bytes \<Rightarrow>
                  (case derive_key_from_password L password salt_bytes PBKDF2_ITERATIONS of
                     Inl e \<Rightarrow> (failure (msg_auth_failed e), w)
                   | Inr computed_hash \<Rightarrow>
                       if b64encode L computed_hash \<noteq> password_hash u then
                         (case log_login_fail_password w name of
                            Inl e \<Rightarrow> (failure (msg_auth_failed e), w)
                          | Inr w' \<Rightarrow> (failure msg_wrong_credentials, w'))
                       else
                         (case log_login_success w name of
                            Inl e \<Rightarrow> (failure (msg_auth_failed e), w)
                          | Inr w' \<Rightarrow>
                              (\<lparr>success = True, message = msg_login_ok name, user = Some u\<rparr>,
                               w'))))))"

text \<open>
  \<open>authenticate_user(username, password)\<close>. After the password step the function uses the
  username as it was given, not stripped, in its log entries and messages. An exception of
  the capture other than \<open>FaceRecognitionError\<close>, one of \<open>compute_distance\<close> and one of the
  write of the log entry reach the handler of the function.
\<close>

definition authenticate_user ::
  "lib \<Rightarrow> face_env \<Rightarrow> world \<Rightarrow> pystr \<Rightarrow> pystr \<Rightarrow> AuthResult \<times> world" where
  "authenticate_user L F w0 username0 password =
     (let (password_result, w) = authenticate_password_only L w0 username0 password in
      if \<not> success password_result then (password_result, w)
      else
        case user password_result of
          None \<Rightarrow> (failure (msg_auth_failed (AttributeError [])), w)
        | Some u \<Rightarrow>
            let cfg = get_system_config (repo w) in
            if \<not> force_mfa cfg then (password_result, w)
            else if \<not> face_enabled u \<or> \<not> truthy (face_embedding u) then
              (failure msg_mfa_not_enrolled, w)
            else
              let (available, m) = is_face_recognition_available F in
              if \<not> available then (failure (msg_face_unavailable m), w)
              else
                (case capture_and_extract_face F of
                   Inl (FaceRecognitionError t) \<Rightarrow>
                     (failure (msg_capture_failed (FaceRecognitionError t)), w)
                 | Inl e \<Rightarrow> (failure (msg_auth_failed e), w)
                 | Inr current_embedding \<Rightarrow>
                     (case compute_distance F (face_embedding u) current_embedding of
                        Inl e \<Rightarrow> (failure (msg_auth_failed e), w)
                      | Inr distance \<Rightarrow>
                          let threshold = face_threshold cfg in
                          if distance \<le> threshold then
                            (case log_auth_event w username0 MFA_SUCCESS
                                    (reason_mfa_ok L distance) of
                               Inl e \<Rightarrow> (failure (msg_auth_failed e), w)
                             | Inr w' \<Rightarrow>
                                 (\<lparr>success = True, message = msg_mfa_ok username0,
                                   user = Some u\<rparr>, w'))
                          else
                            (case log_login_fail_face w username0 of
                               Inl e \<Rightarrow> (failure (msg_auth_failed e), w)
                             | Inr w' \<Rightarrow>
                                 (failure (msg_face_mismatch L distance threshold), w')))))"



section \<open>Sequences of store operations\<close>

text \<open>
  A run of inserts and deletes on one repository object, as one process makes them.
  \<open>run_ops\<close> returns the ids the repository assigned, in the order of assignment: an insert
  is assigned an id when the user comes without one and leaves \<open>save_user\<close> with one.
\<close>

datatype repo_op = Insert bytes User | Delete bytes pystr

definition issued_id :: "User \<Rightarrow> User \<Rightarrow> int list" where
  "issued_id before after =
     (case (user_id before, user_id after) of (None, Some i) \<Rightarrow> [i] | _ \<Rightarrow> [])"

fun run_ops :: "lib \<Rightarrow> FileRepository \<Rightarrow> repo_op list \<Rightarrow> int list \<times> FileRepository" where
  "run_ops L r [] = ([], r)"
| "run_ops L r (Insert iv u # ops) =
     (case save_user L iv r u of
        (res, u1, r1) \<Rightarrow> (case run_ops L r1 ops of (ids, r2) \<Rightarrow> (issued_id u u1 @ ids, r2)))"
| "run_ops L r (Delete iv name # ops) = run_ops L (snd (delete_user L iv r name)) ops"


section \<open>Instances for worked examples\<close>

text \<open>
  A small instance of the library parameters: the key derivation concatenates password and
  salt, base64 is the identity on byte values, the cipher appends a constant tag and checks
  it. It serves to evaluate the model on concrete inputs.
\<close>

definition example_lib :: lib where
  "example_lib =
     \<lparr>pbkdf2_hmac_sha256 = (\<lambda>password salt iterations. map of_nat password @ salt),
      b64encode = map unat,
      b64decode = (\<lambda>s. Inr (map of_nat s)),
      aesgcm_encrypt = (\<lambda>key iv plaintext aad. plaintext @ replicate 16 0),
      aesgcm_decrypt = (\<lambda>key iv data aad.
         if 16 \<le> length data \<and> drop (length data - 16) data = replicate 16 0
         then Some (take (length data - 16) data) else None),
      json_dumps = (\<lambda>v. Inr []),
      json_loads = (\<lambda>b. Inl (LibraryError [])),
      format_4f = (\<lambda>x. []),
      str_float = (\<lambda>x. [])\<rparr>"

definition example_key :: bytes where "example_key = replicate 32 0"
definition example_iv :: bytes where "example_iv = replicate 12 0"
definition example_salt :: bytes where "example_salt = replicate 32 1"

definition example_user :: "pystr \<Rightarrow> pystr \<Rightarrow> User" where
  "example_user name password =
     \<lparr>username = name,
      salt = b64encode example_lib example_salt,
      password_hash = b64encode example_lib
        (pbkdf2_hmac_sha256 example_lib password example_salt PBKDF2_ITERATIONS),
      face_enabled = False, face_embedding = JNull, face_image_data = None,
      user_id = None\<rparr>"

definition example_repo :: "User list \<Rightarrow> SystemConfig \<Rightarrow> FileRepository" where
  "example_repo us c =
     \<lparr>data_model = Some \<lparr>version = 1, users = us, config = c\<rparr>,
      data_key = Some example_key, next_user_id = 1, data_bin = None\<rparr>"

definition dave :: pystr where "dave = [100, 97, 118, 101]"
definition secret1 :: pystr where "secret1 = [115, 101, 99, 114, 101, 116, 49]"


definition example_world :: "User list \<Rightarrow> SystemConfig \<Rightarrow> world" where
  "example_world us c = \<lparr>repo = example_repo us c, auth_log = []\<rparr>"

definition alice :: pystr where "alice = [97, 108, 105, 99, 101]"
definition bob :: pystr where "bob = [98, 111, 98]"
definition carol :: pystr where "carol = [99, 97, 114, 111, 108]"
definition secret2 :: pystr where "secret2 = [115, 101, 99, 114, 101, 116, 50]"

definition example_face :: face_env where
  "example_face =
     \<lparr>CV2_AVAILABLE = True, FACEPP_AVAILABLE = True,
      capture_and_extract_face = Inr (JList [JStr FACEPP_IMAGE, JStr [48, 49]]),
      compare_faces_facepp = (\<lambda>a b. Inl (LibraryError []))\<rparr>"

definition example_plaintext :: bytes where "example_plaintext = [1, 2, 3]"

definition example_corrupt_file :: bytes where "example_corrupt_file = replicate 28 1"

definition example_face_user :: "pystr \<Rightarrow> pystr \<Rightarrow> User" where
  "example_face_user name password =
     (example_user name password)
       \<lparr>face_enabled := True, face_embedding := JList [JStr FACEPP_IMAGE, JStr [48, 49]]\<rparr>"

definition example_face_world :: "real \<Rightarrow> world" where
  "example_face_world threshold =
     example_world [example_face_user alice secret1]
       (SystemConfig_default\<lparr>face_threshold := threshold\<rparr>)"

definition example_face_mismatch :: face_env where
  "example_face_mismatch = example_face\<lparr>compare_faces_facepp := (\<lambda>a b. Inr 0)\<rparr>"

text \<open>The password \<open>"\\ud800"\<close>: one code point, a lone surrogate.\<close>

definition surrogate_password :: pystr where
  "surrogate_password = [55296]"

text \<open>
  A store file that holds dave under id 1, and a library whose JSON parser gives the record
  of that store; the repository a process has after loading it.
\<close>

definition example_stored_model :: DataModel where
  "example_stored_model =
     \<lparr>version = 1, users = [(example_user dave secret1)\<lparr>user_id := Some 1\<rparr>],
      config = SystemConfig_default\<rparr>"

definition example_loading_lib :: lib where
  "example_loading_lib =
     example_lib\<lparr>json_loads := (\<lambda>b. Inr (DataModel_to_dict example_lib example_stored_model))\<rparr>"

definition example_stored_file :: bytes where
  "example_stored_file = example_iv @ replicate 16 0"

definition example_loaded_repo :: FileRepository where
  "example_loaded_repo =
     \<lparr>data_model = Some example_stored_model, data_key = Some example_key,
      next_user_id = 2, data_bin = Some example_stored_file\<rparr>"

text \<open>The state after the password step of alice's login in \<open>example_face_world\<close>.\<close>

definition example_face_world_logged :: "real \<Rightarrow> world" where
  "example_face_world_logged threshold =
     (example_face_world threshold)
       \<lparr>auth_log := [\<lparr>log_username = alice, log_result = SUCCESS,
                       log_reason = [30331, 24405, 25104, 21151]\<rparr>]\<rparr>"

text \<open>The state after alice has registered with an empty store.\<close>

definition example_registered_world :: world where
  "example_registered_world =
     \<lparr>repo = \<lparr>data_model = Some \<lparr>version = 1,
                 users = [(example_user alice secret1)\<lparr>user_id := Some 1\<rparr>],
                 config = SystemConfig_default\<rparr>,
              data_key = Some example_key, next_user_id = 2,
              data_bin = Some (example_iv @ replicate 16 0)\<rparr>,
      auth_log = [\<lparr>log_username = alice, log_result = USER_REGISTERED,
                   log_reason = [29992, 25143, 27880, 20876, 25104, 21151]\<rparr>]\<rparr>"

section \<open>Properties\<close>

subsection \<open>Auxiliary facts\<close>

lemma migrate_returns_record: "migrate (JObj d) = Inr (JObj d)"
  by (simp add: migrate_def)

lemma find_Some_filter: "find P xs = Some x \<Longrightarrow> filter P xs \<noteq> []"
  by (induction xs) (auto split: if_splits)

lemma distinct_filter_le1: "distinct (map f xs) \<Longrightarrow> length (filter (\<lambda>y. f y = k) xs) \<le> 1"
proof (induction xs)
  case Nil
  then show ?case by simp
next
  case (Cons a xs)
  show ?case
  proof (cases "f a = k")
    case True
    from Cons.prems have "f a \<notin> f ` set xs" by simp
    with True have "\<forall>y\<in>set xs. f y \<noteq> k" by blast
    then have "filter (\<lambda>y. f y = k) xs = []" by (simp add: filter_empty_conv)
    with True show ?thesis by simp
  next
    case False
    with Cons show ?thesis by simp
  qed
qed

lemma save_data_next_user_id: "next_user_id (snd (save_data L iv r)) = next_user_id r"
  by (simp add: save_data_def split: option.splits sum.splits prod.splits)

lemma save_data_data_model: "data_model (snd (save_data L iv r)) = data_model r"
  by (simp add: save_data_def split: option.splits sum.splits prod.splits)

lemma delete_user_next_user_id: "next_user_id (snd (delete_user L iv r name)) = next_user_id r"
  by (simp add: delete_user_def save_data_next_user_id split: option.splits)

lemma save_user_issues:
  assumes "save_user L iv r u = (res, u1, r1)"
  shows "(issued_id u u1 = [] \<and> next_user_id r1 = next_user_id r) \<or>
         (issued_id u u1 = [next_user_id r] \<and> next_user_id r1 = next_user_id r + 1)"
  using assms
  by (auto simp: save_user_def issued_id_def Let_def save_data_next_user_id
           split: option.splits)

lemma dropWhile_all_append: "\<forall>c\<in>set a. P c \<Longrightarrow> dropWhile P (a @ s) = dropWhile P s"
  by (induction a) auto

lemma strip_padding:
  assumes "\<forall>c\<in>set a. isspace c" "\<forall>c\<in>set b. isspace c"
  shows "strip (a @ s @ b) = strip s"
proof -
  have 1: "dropWhile isspace (a @ s @ b) = dropWhile isspace (s @ b)"
    using assms(1) by (rule dropWhile_all_append)
  have 2: "rev (dropWhile isspace (rev (dropWhile isspace (s @ b)))) =
           rev (dropWhile isspace (rev (dropWhile isspace s)))"
  proof (cases "\<forall>c\<in>set s. isspace c")
    case True
    then have e: "dropWhile isspace (s @ b) = []" "dropWhile isspace s = []"
      using assms(2) by (auto simp: dropWhile_eq_Nil_conv)
    show ?thesis by (simp only: e)
  next
    case False
    then obtain x where "x \<in> set s" "\<not> isspace x" by auto
    then have "dropWhile isspace (s @ b) = dropWhile isspace s @ b"
      by (rule dropWhile_append1)
    moreover have "dropWhile isspace (rev b @ rev (dropWhile isspace s)) =
                   dropWhile isspace (rev (dropWhile isspace s))"
      using assms(2) by (intro dropWhile_all_append) simp
    ultimately show ?thesis by simp
  qed
  show ?thesis unfolding strip_def 1 2 ..
qed

lemma strip_no_leading: "strip s \<noteq> [] \<Longrightarrow> \<not> isspace (hd (strip s))"
proof -
  assume ne: "strip s \<noteq> []"
  let ?t = "dropWhile isspace s"
  have t: "strip s = rev (dropWhile isspace (rev ?t))" by (simp add: strip_def)
  have tne: "?t \<noteq> []"
  proof
    assume "?t = []"
    then have "strip s = []" by (simp only: strip_def rev.simps dropWhile.simps)
    with ne show False ..
  qed
  then have h: "\<not> isspace (hd ?t)" by (rule hd_dropWhile)
  have "\<exists>zs. ?t = strip s @ zs"
    unfolding t by (metis rev_append rev_rev_ident takeWhile_dropWhile_id)
  then obtain zs where "?t = strip s @ zs" ..
  with ne have "hd ?t = hd (strip s)" by (metis hd_append2)
  with h show ?thesis by simp
qed

lemma strip_no_trailing: "strip s \<noteq> [] \<Longrightarrow> \<not> isspace (last (strip s))"
proof -
  assume ne: "strip s \<noteq> []"
  let ?u = "dropWhile isspace (rev (dropWhile isspace s))"
  have u: "strip s = rev ?u" by (simp add: strip_def)
  with ne have "?u \<noteq> []" by auto
  then have "\<not> isspace (hd ?u)" by (rule hd_dropWhile)
  moreover have "last (strip s) = hd ?u" using \<open>?u \<noteq> []\<close> by (simp add: u last_rev)
  ultimately show ?thesis by simp
qed


lemma strip_Nil: "strip [] = []"
  by (simp add: strip_def)

lemma find_append_new: "find P xs = None \<Longrightarrow> P y \<Longrightarrow> find P (xs @ [y]) = Some y"
  by (induction xs) (auto split: if_splits)

lemma authenticate_password_only_strip:
  assumes "n1 \<noteq> []" "n2 \<noteq> []" "strip n1 = strip n2"
  shows "authenticate_password_only L w n1 p = authenticate_password_only L w n2 p"
  using assms by (simp add: authenticate_password_only_def)

lemma register_user_strip:
  assumes "strip n1 = strip n2"
  shows "register_user L s iv w n1 p = register_user L s iv w n2 p"
proof -
  have "(n1 = [] \<or> strip n1 = []) = (n2 = [] \<or> strip n2 = [])"
    using assms strip_Nil by auto
  then show ?thesis using assms by (simp add: register_user_def)
qed

lemma utf8_encodable_append:
  "utf8_encodable (a @ b) \<longleftrightarrow> utf8_encodable a \<and> utf8_encodable b"
  by (simp add: utf8_encodable_def)

lemma utf8_encodable_set: "utf8_encodable s \<longleftrightarrow> (\<forall>c\<in>set s. \<not> is_surrogate c)"
  by (simp add: utf8_encodable_def list_all_iff)

lemma isspace_not_surrogate: "isspace c \<Longrightarrow> \<not> is_surrogate c"
  by (auto simp: isspace_def is_surrogate_def)

lemma set_strip: "set s \<subseteq> set (strip s) \<union> Collect isspace"
proof -
  let ?t = "dropWhile isspace s"
  have a: "set s = set (takeWhile isspace s) \<union> set ?t"
    by (metis set_append takeWhile_dropWhile_id)
  have b: "set ?t = set (takeWhile isspace (rev ?t)) \<union> set (dropWhile isspace (rev ?t))"
    by (metis set_append set_rev takeWhile_dropWhile_id)
  have c: "set (strip s) = set (dropWhile isspace (rev ?t))"
    by (simp add: strip_def)
  have d: "set (takeWhile isspace xs) \<subseteq> Collect isspace" for xs
    by (auto dest: set_takeWhileD)
  show ?thesis using a b c d[of s] d[of "rev ?t"] by blast
qed

lemma utf8_encodable_strip: "utf8_encodable (strip s) \<Longrightarrow> utf8_encodable s"
  unfolding utf8_encodable_set using set_strip[of s] isspace_not_surrogate by blast

lemma log_auth_event_ok:
  "utf8_encodable name \<Longrightarrow> utf8_encodable reason \<Longrightarrow>
   log_auth_event w name kind reason =
     Inr (w\<lparr>auth_log := auth_log w
            @ [\<lparr>log_username = name, log_result = kind, log_reason = reason\<rparr>]\<rparr>)"
  by (simp add: log_auth_event_def)

lemma log_auth_event_Inr:
  "log_auth_event w name kind reason = Inr w' \<Longrightarrow>
   utf8_encodable name \<and>
   w' = w\<lparr>auth_log := auth_log w
            @ [\<lparr>log_username = name, log_result = kind, log_reason = reason\<rparr>]\<rparr>"
  by (auto simp: log_auth_event_def split: if_splits)

lemma log_login_success_ok:
  "utf8_encodable n \<Longrightarrow>
   log_login_success w n =
     Inr (w\<lparr>auth_log := auth_log w
            @ [\<lparr>log_username = n, log_result = SUCCESS,
                log_reason = [30331, 24405, 25104, 21151]\<rparr>]\<rparr>)"
  by (simp add: log_login_success_def log_auth_event_def utf8_encodable_def is_surrogate_def)

lemma log_login_fail_password_ok:
  "utf8_encodable n \<Longrightarrow>
   log_login_fail_password w n =
     Inr (w\<lparr>auth_log := auth_log w
            @ [\<lparr>log_username = n, log_result = FAIL_WRONG_PASSWORD,
                log_reason = [21475, 20196, 38169, 35823]\<rparr>]\<rparr>)"
  by (simp add: log_login_fail_password_def log_auth_event_def utf8_encodable_def
      is_surrogate_def)

lemma log_login_fail_user_not_found_ok:
  "utf8_encodable n \<Longrightarrow>
   log_login_fail_user_not_found w n =
     Inr (w\<lparr>auth_log := auth_log w
            @ [\<lparr>log_username = n, log_result = FAIL_USER_NOT_FOUND,
                log_reason = [29992, 25143, 19981, 23384, 22312]\<rparr>]\<rparr>)"
  by (simp add: log_login_fail_user_not_found_def log_auth_event_def utf8_encodable_def
      is_surrogate_def)

lemma log_login_fail_face_ok:
  "utf8_encodable n \<Longrightarrow>
   log_login_fail_face w n =
     Inr (w\<lparr>auth_log := auth_log w
            @ [\<lparr>log_username = n, log_result = FAIL_FACE_MISMATCH,
                log_reason = [20154, 33080, 27604, 23545, 22833, 36133]\<rparr>]\<rparr>)"
  by (simp add: log_login_fail_face_def log_auth_event_def utf8_encodable_def is_surrogate_def)


lemma log_user_registered_Inr:
  "log_user_registered w n = Inr w' \<Longrightarrow> utf8_encodable n \<and> repo w' = repo w"
  by (auto simp: log_user_registered_def dest: log_auth_event_Inr)

lemma log_login_success_Inr:
  "log_login_success w n = Inr w' \<Longrightarrow>
   utf8_encodable n \<and>
   w' = w\<lparr>auth_log := auth_log w
            @ [\<lparr>log_username = n, log_result = SUCCESS,
                log_reason = [30331, 24405, 25104, 21151]\<rparr>]\<rparr>"
  by (auto simp: log_login_success_def dest: log_auth_event_Inr)

lemma derive_key_ok:
  "utf8_encodable p \<Longrightarrow>
   derive_key_from_password L p s n = Inr (pbkdf2_hmac_sha256 L p s n)"
  by (simp add: derive_key_from_password_def)

lemma derive_key_Inr:
  "derive_key_from_password L p s n = Inr h \<Longrightarrow>
   utf8_encodable p \<and> h = pbkdf2_hmac_sha256 L p s n"
  by (auto simp: derive_key_from_password_def split: if_splits)

lemma authenticate_password_only_correct:
  assumes "n \<noteq> []" and "p \<noteq> []"
    and "get_user_by_username (repo w) (strip n) = Some u"
    and "b64decode L (salt u) = Inr salt_bytes"
    and "utf8_encodable p"
    and "b64encode L (pbkdf2_hmac_sha256 L p salt_bytes PBKDF2_ITERATIONS) = password_hash u"
    and "utf8_encodable (strip n)"
  shows "authenticate_password_only L w n p =
           (\<lparr>success = True, message = msg_login_ok (strip n), user = Some u\<rparr>,
            w\<lparr>auth_log := auth_log w
               @ [\<lparr>log_username = strip n, log_result = SUCCESS,
                   log_reason = [30331, 24405, 25104, 21151]\<rparr>]\<rparr>)"
  using assms
  by (simp add: authenticate_password_only_def Let_def derive_key_ok log_login_success_ok)

lemma authenticate_password_only_success:
  assumes "authenticate_password_only L w0 n p = (password_result, w)"
    and "success password_result"
  shows "n \<noteq> [] \<and> utf8_encodable (strip n) \<and>
         (\<exists>u. user password_result = Some u \<and>
              get_user_by_username (repo w0) (strip n) = Some u) \<and>
         w = w0\<lparr>auth_log := auth_log w0
               @ [\<lparr>log_username = strip n, log_result = SUCCESS,
                   log_reason = [30331, 24405, 25104, 21151]\<rparr>]\<rparr>"
  using assms
  by (auto simp: authenticate_password_only_def Let_def failure_def
      split: if_splits option.splits sum.splits dest: log_login_success_Inr)

lemma register_user_success:
  assumes "success (fst (register_user L s iv w n p))"
  shows "strip n \<noteq> [] \<and>
         (\<exists>x. user (fst (register_user L s iv w n p)) = Some x \<and> username x = strip n \<and>
              get_user_by_username (repo (snd (register_user L s iv w n p))) (strip n) = Some x)"
proof -
  from assms have v: "\<not> (n = [] \<or> strip n = [])" "\<not> (p = [] \<or> length p < 6)"
    by (auto simp: register_user_def failure_def split: if_splits)
  then have ne: "strip n \<noteq> []" by simp
  from assms v have g: "get_user_by_username (repo w) (strip n) = None"
    by (auto simp: register_user_def failure_def Let_def split: option.splits)
  from assms v g obtain h where h: "derive_key_from_password L p s PBKDF2_ITERATIONS = Inr h"
    by (cases "derive_key_from_password L p s PBKDF2_ITERATIONS")
       (auto simp: register_user_def failure_def Let_def)
  define nu where "nu = \<lparr>username = strip n, salt = b64encode L s,
      password_hash = b64encode L h,
      face_enabled = False, face_embedding = JNull, face_image_data = None, user_id = None\<rparr>"
  obtain res u1 r1 where su: "save_user L iv (repo w) nu = (res, u1, r1)"
    by (cases "save_user L iv (repo w) nu") auto
  from assms v g h su obtain x where res: "res = Inr x"
    by (cases res) (auto simp: register_user_def failure_def Let_def nu_def)
  from assms v g h su res obtain w' where lg: "log_user_registered (w\<lparr>repo := r1\<rparr>) (strip n) = Inr w'"
    by (cases "log_user_registered (w\<lparr>repo := r1\<rparr>) (strip n)")
       (auto simp: register_user_def failure_def Let_def nu_def)
  from log_user_registered_Inr[OF lg] have rw: "repo w' = r1" by simp
  from su res obtain m where m: "data_model (repo w) = Some m"
    by (auto simp: save_user_def split: option.splits)
  from g m have f: "find (\<lambda>y. username y = strip n) (users m) = None"
    by (simp add: get_user_by_username_def)
  from su m g have u1: "username u1 = strip n"
    and r1: "data_model r1 = Some (m\<lparr>users := users m @ [u1]\<rparr>)"
    by (auto simp: save_user_def Let_def nu_def save_data_data_model split: option.splits)
  from f u1 have "find (\<lambda>y. username y = strip n) (users m @ [u1]) = Some u1"
    by (intro find_append_new) auto
  with r1 have "get_user_by_username r1 (strip n) = Some u1"
    by (simp add: get_user_by_username_def)
  moreover have "register_user L s iv w n p =
     (\<lparr>success = True, message = msg_registered (strip n), user = Some u1\<rparr>, w')"
    using v g h su res lg by (simp add: register_user_def Let_def nu_def)
  ultimately show ?thesis using ne u1 rw by simp
qed

lemma authenticate_user_not_enrolled:
  assumes "n \<noteq> []" and "p \<noteq> []"
    and "get_user_by_username (repo w) (strip n) = Some u"
    and "b64decode L (salt u) = Inr salt_bytes"
    and "utf8_encodable p"
    and "b64encode L (pbkdf2_hmac_sha256 L p salt_bytes PBKDF2_ITERATIONS) = password_hash u"
    and "utf8_encodable (strip n)"
    and "force_mfa (get_system_config (repo w))"
    and "\<not> face_enabled u \<or> \<not> truthy (face_embedding u)"
  shows "authenticate_user L F w n p =
           (failure msg_mfa_not_enrolled,
            w\<lparr>auth_log := auth_log w
               @ [\<lparr>log_username = strip n, log_result = SUCCESS,
                   log_reason = [30331, 24405, 25104, 21151]\<rparr>]\<rparr>)"
  using assms(8,9)
  by (auto simp: authenticate_user_def authenticate_password_only_correct[OF assms(1-7)])

lemma example_names_encodable:
  "utf8_encodable alice" "utf8_encodable bob" "utf8_encodable carol" "utf8_encodable dave"
  "utf8_encodable secret1" "utf8_encodable secret2"
  by (simp_all add: utf8_encodable_def is_surrogate_def alice_def bob_def carol_def dave_def
      secret1_def secret2_def)

lemma ex_strip_alice: "strip alice = alice"
  by (simp add: strip_def alice_def isspace_def)

lemma ex_strip_bob: "strip bob = bob"
  by (simp add: strip_def bob_def isspace_def)

lemma ex_strip_carol: "strip carol = carol"
  by (simp add: strip_def carol_def isspace_def)

lemma same_failure_message_when_encodable:
  assumes "n1 \<noteq> []" and "p1 \<noteq> []" and "n2 \<noteq> []" and "p2 \<noteq> []"
    and "utf8_encodable (strip n1)" and "utf8_encodable (strip n2)" and "utf8_encodable p2"
    and "get_user_by_username (repo w1) (strip n1) = None"
    and "get_user_by_username (repo w2) (strip n2) = Some u"
    and "b64decode L (salt u) = Inr salt_bytes"
    and "b64encode L (pbkdf2_hmac_sha256 L p2 salt_bytes PBKDF2_ITERATIONS) \<noteq> password_hash u"
  shows "fst (authenticate_password_only L w1 n1 p1) = failure msg_wrong_credentials \<and>
         fst (authenticate_password_only L w2 n2 p2) = failure msg_wrong_credentials"
  using assms
  by (simp add: authenticate_password_only_def Let_def derive_key_ok
      log_login_fail_user_not_found_ok log_login_fail_password_ok)

lemma example_lib_roundtrip:
  "aesgcm_decrypt example_lib key iv (aesgcm_encrypt example_lib key iv P aad) aad = Some P"
  by (simp add: example_lib_def)

lemma file_parts:
  assumes "28 \<le> length f"
  shows "drop 12 (take (length f - 16) f) @ drop (length f - 16) f = drop 12 f"
    and "length (take 12 f) = 12" and "length (drop (length f - 16) f) = 16"
proof -
  have "drop 12 (take (length f - 16) f @ drop (length f - 16) f) =
        drop 12 (take (length f - 16) f) @ drop (length f - 16) f"
    using assms by (simp only: drop_append length_take) simp
  moreover have "take (length f - 16) f @ drop (length f - 16) f = f"
    by (rule append_take_drop_id)
  ultimately show "drop 12 (take (length f - 16) f) @ drop (length f - 16) f = drop 12 f"
    by simp
  show "length (take 12 f) = 12" using assms by simp
  show "length (drop (length f - 16) f) = 16" using assms by simp
qed

lemma run_ops_increasing:
  "sorted_wrt (<) (fst (run_ops L r ops)) \<and>
   (\<forall>i\<in>set (fst (run_ops L r ops)). next_user_id r \<le> i) \<and>
   next_user_id r \<le> next_user_id (snd (run_ops L r ops))"
proof (induction ops arbitrary: r)
  case Nil
  show ?case by simp
next
  case (Cons op ops)
  show ?case
  proof (cases op)
    case (Insert iv u)
    obtain res u1 r1 where s: "save_user L iv r u = (res, u1, r1)"
      by (cases "save_user L iv r u") auto
    obtain ids r2 where t: "run_ops L r1 ops = (ids, r2)"
      by (cases "run_ops L r1 ops") auto
    from Cons.IH[of r1] t have ih: "sorted_wrt (<) ids" "\<forall>i\<in>set ids. next_user_id r1 \<le> i"
      "next_user_id r1 \<le> next_user_id r2" by auto
    from save_user_issues[OF s] show ?thesis
      using ih Insert s t by (auto simp: sorted_wrt_append)
  next
    case (Delete iv name)
    with Cons.IH[of "snd (delete_user L iv r name)"] show ?thesis
      by (simp add: delete_user_next_user_id)
  qed
qed

lemma truthy_ids_Nil: "truthy_ids us \<noteq> [] \<Longrightarrow> us \<noteq> []"
  by (cases us) auto

lemma load_data_next_user_id:
  assumes "load_data L iv key r0 = (Inr (), r)"
  shows "(get_all_users r = [] \<and> next_user_id r = next_user_id r0) \<or>
         (truthy_ids (get_all_users r) \<noteq> [] \<and>
          next_user_id r = Max (set (truthy_ids (get_all_users r))) + 1)"
proof (cases "data_bin r0")
  case None
  let ?r1 = "r0\<lparr>data_key := Some key,
      data_model := Some \<lparr>version = 1, users = [], config = SystemConfig_default\<rparr>\<rparr>"
  from assms None have "save_data L iv ?r1 = (Inr (), r)"
    by (simp add: load_data_def Let_def)
  then have "r = snd (save_data L iv ?r1)" by simp
  then have "data_model r = data_model ?r1" "next_user_id r = next_user_id ?r1"
    by (simp_all add: save_data_data_model save_data_next_user_id)
  then show ?thesis by (simp add: get_all_users_def)
next
  case (Some f)
  with assms show ?thesis
    by (auto simp: load_data_def Let_def get_all_users_def
        split: if_splits sum.splits list.splits)
qed

lemma example_load:
  "load_data example_loading_lib example_iv example_key
     (FileRepository_init (Some example_stored_file)) = (Inr (), example_loaded_repo)"
proof -
  have d: "decrypt_aes_gcm example_loading_lib example_key (take 12 example_stored_file)
             (drop 12 (take (length example_stored_file - 16) example_stored_file))
             (drop (length example_stored_file - 16) example_stored_file) None = Inr []"
    by (simp add: decrypt_aes_gcm_def example_stored_file_def example_iv_def example_key_def
        example_loading_lib_def example_lib_def)
  have m: "migrate (DataModel_to_dict example_lib example_stored_model)
             = Inr (DataModel_to_dict example_lib example_stored_model)"
    by (simp add: DataModel_to_dict_def migrate_returns_record)
  have u: "User_from_dict example_loading_lib
             (User_to_dict example_lib ((example_user dave secret1)\<lparr>user_id := Some 1\<rparr>))
           = Inr ((example_user dave secret1)\<lparr>user_id := Some 1\<rparr>)"
    by (simp add: User_from_dict_def User_to_dict_def example_user_def dict_get_def
        dict_item_def bind_exn_def as_str_def as_bool_def as_optional_int_def
        k_id_def k_username_def k_salt_def k_password_hash_def k_face_enabled_def
        k_face_embedding_def k_face_image_data_def)
  have c: "SystemConfig_from_dict (SystemConfig_to_dict SystemConfig_default)
             = Inr SystemConfig_default"
    by (simp add: SystemConfig_from_dict_def SystemConfig_to_dict_def SystemConfig_default_def
        dict_get_def bind_exn_def as_str_def as_bool_def as_int_def as_float_def
        k_force_mfa_def k_face_threshold_def k_hash_algorithm_def k_encryption_algorithm_def
        k_pbkdf2_iterations_def)
  have f: "DataModel_from_dict example_loading_lib
             (DataModel_to_dict example_lib example_stored_model) = Inr example_stored_model"
    by (simp add: DataModel_from_dict_def DataModel_to_dict_def example_stored_model_def
        dict_get_def bind_exn_def as_int_def u c k_version_def k_users_def k_config_def)
  have j: "json_loads example_loading_lib [] =
             Inr (DataModel_to_dict example_lib example_stored_model)"
    by (simp add: example_loading_lib_def)
  have l: "28 \<le> length example_stored_file"
    by (simp add: example_stored_file_def example_iv_def)
  have t: "truthy_ids (users example_stored_model) = [1]"
    by (simp add: example_stored_model_def)
  show ?thesis
    using l
    by (simp add: load_data_def Let_def FileRepository_init_def d j m f t bind_exn_def
        example_loaded_repo_def)
       (simp add: example_stored_model_def)
qed

lemma compute_distance_service_error:
  assumes "FACEPP_AVAILABLE F" and "compare_faces_facepp F image1 image2 = Inl e"
  shows "compute_distance F (JList [JStr FACEPP_IMAGE, image1]) (JList [JStr FACEPP_IMAGE, image2])
           = Inr 1"
  using assms by (simp add: compute_distance_def is_facepp_pair_def bind_exn_def)


lemma replace_first_found:
  "find (\<lambda>y. username y = k) xs = Some x \<Longrightarrow> \<exists>ys. replace_first k v xs = Some ys"
  by (induction xs) (auto split: if_splits)





lemma example_face_distance:
  "compute_distance example_face (face_embedding (example_face_user alice secret1))
     (JList [JStr FACEPP_IMAGE, JStr [48, 49]]) = Inr 1"
  unfolding example_face_user_def
  by (simp add: compute_distance_service_error example_face_def)

lemma example_face_world_user:
  "get_user_by_username (repo (example_face_world t)) alice
     = Some (example_face_user alice secret1)"
  by (simp add: get_user_by_username_def example_face_world_def
        example_world_def example_repo_def example_face_user_def example_user_def)

lemma example_face_world_config:
  "get_system_config (repo (example_face_world t)) = SystemConfig_default\<lparr>face_threshold := t\<rparr>"
  by (simp add: get_system_config_def example_face_world_def example_world_def example_repo_def)

lemma example_face_world_logged_repo:
  "repo (example_face_world_logged t) = repo (example_face_world t)"
  by (simp add: example_face_world_logged_def)

lemma example_face_world_password:
  "authenticate_password_only example_lib (example_face_world t) alice secret1 =
     (\<lparr>success = True, message = msg_login_ok (strip alice),
       user = Some (example_face_user alice secret1)\<rparr>,
      example_face_world_logged t)"
proof -
  have l: "(example_face_world t)\<lparr>auth_log := auth_log (example_face_world t)
               @ [\<lparr>log_username = strip alice, log_result = SUCCESS,
                   log_reason = [30331, 24405, 25104, 21151]\<rparr>]\<rparr>
           = example_face_world_logged t"
    by (simp add: example_face_world_logged_def ex_strip_alice example_face_world_def
        example_world_def)
  show ?thesis
    unfolding l[symmetric]
  proof (rule authenticate_password_only_correct)
    show "alice \<noteq> []" by (simp add: alice_def)
    show "secret1 \<noteq> []" by (simp add: secret1_def)
    show "get_user_by_username (repo (example_face_world t)) (strip alice)
          = Some (example_face_user alice secret1)"
      unfolding ex_strip_alice by (rule example_face_world_user)
    show "b64decode example_lib (salt (example_face_user alice secret1)) = Inr example_salt"
      by (simp add: example_lib_def example_face_user_def example_user_def example_salt_def)
    show "utf8_encodable secret1" by (rule example_names_encodable)
    show "b64encode example_lib
          (pbkdf2_hmac_sha256 example_lib secret1 example_salt PBKDF2_ITERATIONS)
        = password_hash (example_face_user alice secret1)"
      by (simp add: example_face_user_def example_user_def)
    show "utf8_encodable (strip alice)"
      unfolding ex_strip_alice by (rule example_names_encodable)
  qed
qed

lemma authenticate_user_face_pass:
  assumes "authenticate_password_only L w0 n p = (password_result, w)"
    and "success password_result" and "user password_result = Some u"
    and "force_mfa (get_system_config (repo w))"
    and "face_enabled u" and "truthy (face_embedding u)"
    and "CV2_AVAILABLE F" and "FACEPP_AVAILABLE F"
    and "capture_and_extract_face F = Inr emb"
    and "compute_distance F (face_embedding u) emb = Inr d"
    and "d \<le> face_threshold (get_system_config (repo w))"
    and "utf8_encodable (reason_mfa_ok L d)"
  shows "authenticate_user L F w0 n p =
           (\<lparr>success = True, message = msg_mfa_ok n, user = Some u\<rparr>,
            w\<lparr>auth_log := auth_log w
               @ [\<lparr>log_username = n, log_result = MFA_SUCCESS,
                   log_reason = reason_mfa_ok L d\<rparr>]\<rparr>)"
proof -
  from authenticate_password_only_success[OF assms(1,2)]
  have "utf8_encodable (strip n)" by simp
  then have e: "utf8_encodable n" by (rule utf8_encodable_strip)
  show ?thesis
    using assms(1-11)
    by (simp add: authenticate_user_def Let_def is_face_recognition_available_def
        log_auth_event_ok[OF e assms(12)])
qed

lemma authenticate_user_face_fail:
  assumes "authenticate_password_only L w0 n p = (password_result, w)"
    and "success password_result" and "user password_result = Some u"
    and "force_mfa (get_system_config (repo w))"
    and "face_enabled u" and "truthy (face_embedding u)"
    and "CV2_AVAILABLE F" and "FACEPP_AVAILABLE F"
    and "capture_and_extract_face F = Inr emb"
    and "compute_distance F (face_embedding u) emb = Inr d"
    and "\<not> d \<le> face_threshold (get_system_config (repo w))"
  shows "authenticate_user L F w0 n p =
           (failure (msg_face_mismatch L d (face_threshold (get_system_config (repo w)))),
            w\<lparr>auth_log := auth_log w
               @ [\<lparr>log_username = n, log_result = FAIL_FACE_MISMATCH,
                   log_reason = [20154, 33080, 27604, 23545, 22833, 36133]\<rparr>]\<rparr>)"
proof -
  from authenticate_password_only_success[OF assms(1,2)]
  have "utf8_encodable (strip n)" by simp
  then have e: "utf8_encodable n" by (rule utf8_encodable_strip)
  show ?thesis
    using assms
    by (simp add: authenticate_user_def Let_def is_face_recognition_available_def
        log_login_fail_face_ok[OF e])
qed

lemma example_face_passes_at_one:
  "success (fst (authenticate_user example_lib example_face (example_face_world 1)
      alice secret1)) = True \<and>
   map log_result (auth_log (snd (authenticate_user example_lib example_face
      (example_face_world 1) alice secret1))) = [SUCCESS, MFA_SUCCESS]"
proof -
  have "authenticate_user example_lib example_face (example_face_world 1) alice secret1 =
     (\<lparr>success = True, message = msg_mfa_ok alice,
       user = Some (example_face_user alice secret1)\<rparr>,
      (example_face_world_logged 1)\<lparr>auth_log := auth_log (example_face_world_logged 1)
         @ [\<lparr>log_username = alice, log_result = MFA_SUCCESS,
             log_reason = reason_mfa_ok example_lib 1\<rparr>]\<rparr>)"
  proof (rule authenticate_user_face_pass[OF example_face_world_password])
    show "face_enabled (example_face_user alice secret1)"
      and "truthy (face_embedding (example_face_user alice secret1))"
      by (simp_all add: example_face_user_def)
    show "CV2_AVAILABLE example_face" and "FACEPP_AVAILABLE example_face"
      and "capture_and_extract_face example_face = Inr (JList [JStr FACEPP_IMAGE, JStr [48, 49]])"
      by (simp_all add: example_face_def)
    show "compute_distance example_face (face_embedding (example_face_user alice secret1))
            (JList [JStr FACEPP_IMAGE, JStr [48, 49]]) = Inr 1"
      by (rule example_face_distance)
    show "force_mfa (get_system_config (repo (example_face_world_logged 1)))"
      by (simp add: example_face_world_logged_repo example_face_world_config
          SystemConfig_default_def)
    show "1 \<le> face_threshold (get_system_config (repo (example_face_world_logged 1)))"
      by (simp add: example_face_world_logged_repo example_face_world_config)
    show "utf8_encodable (reason_mfa_ok example_lib 1)"
      by (simp add: reason_mfa_ok_def example_lib_def utf8_encodable_def is_surrogate_def)
  qed simp_all
  then show ?thesis
    by (simp add: example_face_world_logged_def)
qed

lemma example_face_mismatch_distance:
  "compute_distance example_face_mismatch (face_embedding (example_face_user alice secret1))
     (JList [JStr FACEPP_IMAGE, JStr [48, 49]]) = Inr 1"
  by (simp add: compute_distance_def is_facepp_pair_def bind_exn_def example_face_user_def
      example_face_mismatch_def example_face_def)

lemma example_face_fails_at_half:
  assumes "CV2_AVAILABLE F" and "FACEPP_AVAILABLE F"
    and "capture_and_extract_face F = Inr (JList [JStr FACEPP_IMAGE, JStr [48, 49]])"
    and "compute_distance F (face_embedding (example_face_user alice secret1))
           (JList [JStr FACEPP_IMAGE, JStr [48, 49]]) = Inr 1"
  shows "authenticate_user example_lib F (example_face_world (1 / 2)) alice secret1 =
     (failure (msg_face_mismatch example_lib 1 (1 / 2)),
      (example_face_world_logged (1 / 2))\<lparr>auth_log := auth_log (example_face_world_logged (1 / 2))
         @ [\<lparr>log_username = alice, log_result = FAIL_FACE_MISMATCH,
             log_reason = [20154, 33080, 27604, 23545, 22833, 36133]\<rparr>]\<rparr>)"
proof -
  have "authenticate_user example_lib F (example_face_world (1 / 2)) alice secret1 =
     (failure (msg_face_mismatch example_lib 1
        (face_threshold (get_system_config (repo (example_face_world_logged (1 / 2)))))),
      (example_face_world_logged (1 / 2))\<lparr>auth_log := auth_log (example_face_world_logged (1 / 2))
         @ [\<lparr>log_username = alice, log_result = FAIL_FACE_MISMATCH,
             log_reason = [20154, 33080, 27604, 23545, 22833, 36133]\<rparr>]\<rparr>)"
  proof (rule authenticate_user_face_fail[OF example_face_world_password _ _ _ _ _ assms])
    show "face_enabled (example_face_user alice secret1)"
      and "truthy (face_embedding (example_face_user alice secret1))"
      by (simp_all add: example_face_user_def)
    show "force_mfa (get_system_config (repo (example_face_world_logged (1 / 2))))"
      by (simp add: example_face_world_logged_repo example_face_world_config
          SystemConfig_default_def)
    show "\<not> 1 \<le> face_threshold (get_system_config (repo (example_face_world_logged (1 / 2))))"
      by (simp add: example_face_world_logged_repo example_face_world_config)
  qed simp_all
  then show ?thesis
    by (simp add: example_face_world_logged_repo example_face_world_config)
qed

lemma example_face_error_is_mismatch:
  "authenticate_user example_lib example_face (example_face_world (1 / 2)) alice secret1
     = authenticate_user example_lib example_face_mismatch (example_face_world (1 / 2))
         alice secret1 \<and>
   map log_result (auth_log (snd (authenticate_user example_lib example_face
      (example_face_world (1 / 2)) alice secret1))) = [SUCCESS, FAIL_FACE_MISMATCH]"
proof -
  let ?r = "(failure (msg_face_mismatch example_lib 1 (1 / 2)),
      (example_face_world_logged (1 / 2))\<lparr>auth_log := auth_log (example_face_world_logged (1 / 2))
         @ [\<lparr>log_username = alice, log_result = FAIL_FACE_MISMATCH,
             log_reason = [20154, 33080, 27604, 23545, 22833, 36133]\<rparr>]\<rparr>)"
  have a: "authenticate_user example_lib example_face (example_face_world (1 / 2)) alice secret1
             = ?r"
  proof (rule example_face_fails_at_half)
    show "compute_distance example_face (face_embedding (example_face_user alice secret1))
            (JList [JStr FACEPP_IMAGE, JStr [48, 49]]) = Inr 1"
      by (rule example_face_distance)
  qed (simp_all add: example_face_def)
  have b: "authenticate_user example_lib example_face_mismatch (example_face_world (1 / 2))
       alice secret1 = ?r"
  proof (rule example_face_fails_at_half)
    show "compute_distance example_face_mismatch
            (face_embedding (example_face_user alice secret1))
            (JList [JStr FACEPP_IMAGE, JStr [48, 49]]) = Inr 1"
      by (rule example_face_mismatch_distance)
  qed (simp_all add: example_face_mismatch_def example_face_def)
  show ?thesis unfolding a b
    by (simp add: example_face_world_logged_def)
qed

lemma example_registration:
  "register_user example_lib example_salt example_iv (example_world [] SystemConfig_default)
     alice secret1 =
   (\<lparr>success = True, message = msg_registered (strip alice),
     user = Some ((example_user alice secret1)\<lparr>user_id := Some 1\<rparr>)\<rparr>,
    example_registered_world)"
proof -
  have ne: "alice \<noteq> []" by (simp add: alice_def)
  have d: "derive_key_from_password example_lib secret1 example_salt PBKDF2_ITERATIONS =
             Inr (pbkdf2_hmac_sha256 example_lib secret1 example_salt PBKDF2_ITERATIONS)"
    by (rule derive_key_ok) (rule example_names_encodable)
  have l: "log_user_registered w alice =
     Inr (w\<lparr>auth_log := auth_log w
            @ [\<lparr>log_username = alice, log_result = USER_REGISTERED,
                log_reason = [29992, 25143, 27880, 20876, 25104, 21151]\<rparr>]\<rparr>)" for w
    using example_names_encodable(1)
    by (simp add: log_user_registered_def log_auth_event_def utf8_encodable_def
        is_surrogate_def)
  have v: "\<not> (secret1 = [] \<or> length secret1 < 6)" by (simp add: secret1_def)
  have g: "get_user_by_username (repo (example_world [] SystemConfig_default)) alice = None"
    by (simp add: get_user_by_username_def example_world_def example_repo_def)
  have s: "save_user example_lib example_iv (repo (example_world [] SystemConfig_default))
             \<lparr>username = alice, salt = b64encode example_lib example_salt,
              password_hash = b64encode example_lib
                (pbkdf2_hmac_sha256 example_lib secret1 example_salt PBKDF2_ITERATIONS),
              face_enabled = False, face_embedding = JNull, face_image_data = None,
              user_id = None\<rparr>
           = (Inr (),
              (example_user alice secret1)\<lparr>user_id := Some 1\<rparr>,
              repo example_registered_world)"
    by (simp add: save_user_def save_data_def encrypt_aes_gcm_def Let_def
        get_user_by_username_def example_world_def example_repo_def
        example_registered_world_def example_user_def example_lib_def example_key_def)
  show ?thesis
    using ne v
    by (simp add: register_user_def ex_strip_alice Let_def d l g s)
       (simp add: example_registered_world_def example_world_def)
qed

lemma authenticate_password_only_unknown:
  assumes "n \<noteq> []" and "p \<noteq> []" and "utf8_encodable (strip n)"
    and "get_user_by_username (repo w) (strip n) = None"
  shows "fst (authenticate_password_only L w n p) = failure msg_wrong_credentials"
  using assms
  by (simp add: authenticate_password_only_def Let_def log_login_fail_user_not_found_ok)

subsection \<open>The claims\<close>

text \<open>
  Claim C1. A login with the correct password, under \<open>force_mfa\<close>, of a user without a
  face template must fail with the not-enrolled message and write no \<open>SUCCESS\<close> event. On
  the code the login fails with that message, but the password step, which
  \<open>authenticate_user\<close> runs first, has already written \<open>SUCCESS\<close> with the reason
  \<open>"\\u767b\\u5f55\\u6210\\u529f"\<close> (login succeeded): for user carol the log of the attempt is
  that one entry. The same holds for every such attempt, by
  \<open>authenticate_user_not_enrolled\<close>.
\<close>

theorem C1_success_logged_before_mfa_failure:
  "authenticate_user example_lib example_face
      (example_world [example_user carol secret1] SystemConfig_default) carol secret1
   = (\<lparr>success = False, message = msg_mfa_not_enrolled, user = None\<rparr>,
      \<lparr>repo = example_repo [example_user carol secret1] SystemConfig_default,
       auth_log = [\<lparr>log_username = carol, log_result = SUCCESS,
                    log_reason = [30331, 24405, 25104, 21151]\<rparr>]\<rparr>)"
proof -
  let ?w = "example_world [example_user carol secret1] SystemConfig_default"
  have h1: "carol \<noteq> []" and h2: "secret1 \<noteq> []" by (simp_all add: carol_def secret1_def)
  have h3: "get_user_by_username (repo ?w) (strip carol) = Some (example_user carol secret1)"
    by (simp add: ex_strip_carol get_user_by_username_def example_world_def example_repo_def
        example_user_def)
  have h4: "b64decode example_lib (salt (example_user carol secret1)) = Inr example_salt"
    by (simp add: example_lib_def example_user_def example_salt_def)
  have h5: "b64encode example_lib
       (pbkdf2_hmac_sha256 example_lib secret1 example_salt PBKDF2_ITERATIONS)
     = password_hash (example_user carol secret1)"
    by (simp add: example_user_def)
  have h6: "force_mfa (get_system_config (repo ?w))"
    by (simp add: get_system_config_def example_world_def example_repo_def SystemConfig_default_def)
  have h7: "\<not> face_enabled (example_user carol secret1) \<or>
            \<not> truthy (face_embedding (example_user carol secret1))"
    by (simp add: example_user_def)
  have h8: "utf8_encodable (strip carol)"
    unfolding ex_strip_carol by (rule example_names_encodable)
  show ?thesis
    unfolding authenticate_user_not_enrolled[OF h1 h2 h3 h4 example_names_encodable(5) h5 h8 h6 h7]
      ex_strip_carol
    by (simp add: failure_def example_world_def)
qed

theorem C1_success_logged_before_mfa_failure_witness:
  "success (fst (authenticate_user example_lib example_face
      (example_world [example_user carol secret1] SystemConfig_default) carol secret1)) = False \<and>
   message (fst (authenticate_user example_lib example_face
      (example_world [example_user carol secret1] SystemConfig_default) carol secret1))
     = msg_mfa_not_enrolled \<and>
   map log_result (auth_log (snd (authenticate_user example_lib example_face
      (example_world [example_user carol secret1] SystemConfig_default) carol secret1)))
     = [SUCCESS]"
  using C1_success_logged_before_mfa_failure by simp

text \<open>
  Claim C2. A login with a username that is not registered and a login with a registered
  username and a wrong password must return the same message. The code means to (the
  comment at the lookup says not to reveal whether the user exists) and does so whenever
  usernames and password can be encoded in UTF-8, by \<open>same_failure_message_when_encodable\<close>.
  It does not for a password that cannot be encoded. With the password \<open>"\\ud800"\<close>, a lone
  surrogate, the attempt of bob, who is not registered, returns \<open>msg_wrong_credentials\<close>;
  for alice, who is registered, the key derivation raises \<open>UnicodeEncodeError\<close>, which the
  handler of the function turns into the message \<open>msg_auth_failed\<close>. The two messages
  differ, and the second tells that alice is registered.
\<close>

theorem C2_failure_message_reveals_registered_user:
  "fst (authenticate_password_only example_lib
          (example_world [example_user alice secret1] SystemConfig_default)
          bob surrogate_password)
     = failure msg_wrong_credentials \<and>
   fst (authenticate_password_only example_lib
          (example_world [example_user alice secret1] SystemConfig_default)
          alice surrogate_password)
     = failure (msg_auth_failed (UnicodeEncodeError [])) \<and>
   message (fst (authenticate_password_only example_lib
          (example_world [example_user alice secret1] SystemConfig_default)
          bob surrogate_password))
     \<noteq> message (fst (authenticate_password_only example_lib
          (example_world [example_user alice secret1] SystemConfig_default)
          alice surrogate_password))"
proof -
  let ?w = "example_world [example_user alice secret1] SystemConfig_default"
  have nb: "get_user_by_username (repo ?w) bob = None"
    by (simp add: get_user_by_username_def example_world_def example_repo_def example_user_def
        bob_def alice_def)
  have na: "get_user_by_username (repo ?w) alice = Some (example_user alice secret1)"
    by (simp add: get_user_by_username_def example_world_def example_repo_def example_user_def)
  have sa: "b64decode example_lib (salt (example_user alice secret1)) = Inr example_salt"
    by (simp add: example_lib_def example_user_def example_salt_def)
  have d: "derive_key_from_password example_lib surrogate_password s n
             = Inl (UnicodeEncodeError [])" for s n
    by (simp add: derive_key_from_password_def utf8_encodable_def is_surrogate_def
        surrogate_password_def)
  have ne: "bob \<noteq> []" "alice \<noteq> []" "surrogate_password \<noteq> []"
    by (simp_all add: bob_def alice_def surrogate_password_def)
  have b: "fst (authenticate_password_only example_lib ?w bob surrogate_password)
             = failure msg_wrong_credentials"
    using ne
    by (simp add: authenticate_password_only_def Let_def ex_strip_bob nb
        log_login_fail_user_not_found_ok example_names_encodable)
  have a: "fst (authenticate_password_only example_lib ?w alice surrogate_password)
             = failure (msg_auth_failed (UnicodeEncodeError []))"
    using ne
    by (simp add: authenticate_password_only_def Let_def ex_strip_alice na sa d)
  have m: "message (failure msg_wrong_credentials)
             \<noteq> message (failure (msg_auth_failed (UnicodeEncodeError [])))"
    by (simp add: failure_def msg_wrong_credentials_def msg_auth_failed_def)
  show ?thesis unfolding a b using m by simp
qed

theorem C2_failure_message_reveals_registered_user_witness:
  "message (fst (authenticate_password_only example_lib
          (example_world [example_user alice secret1] SystemConfig_default)
          bob surrogate_password))
     = msg_wrong_credentials \<and>
   message (fst (authenticate_password_only example_lib
          (example_world [example_user alice secret1] SystemConfig_default)
          alice surrogate_password))
     = msg_auth_failed (UnicodeEncodeError [])"
  using C2_failure_message_reveals_registered_user by (simp add: failure_def)

text \<open>
  Claim C3. When the authenticated decryption of the stored file fails, \<open>load_data\<close> raises
  \<open>InvalidTag\<close>, the integrity error, and changes nothing but the stored key: the file is
  left as it is and no model is installed. On a repository that had no model, as at process
  start, none exists afterwards, neither an empty nor a partly filled one: no user of the
  file can be obtained (\<open>get_all_users\<close> has no user to return, \<open>get_user_by_username\<close>
  finds none) and an insert is refused as on an uninitialised repository. The library is
  asked with the first 12 bytes of the file as nonce and the rest as ciphertext and tag.
\<close>

theorem C3_failed_decryption_is_raised:
  assumes "data_bin r = Some f" and "28 \<le> length f" and "length key = 32"
    and "aesgcm_decrypt L key (take 12 f) (drop 12 f) None = None"
  shows "load_data L iv key r = (Inl InvalidTag, r\<lparr>data_key := Some key\<rparr>) \<and>
         (data_model r = None \<longrightarrow>
            data_model (snd (load_data L iv key r)) = None \<and>
            get_all_users (snd (load_data L iv key r)) = [] \<and>
            get_user_by_username (snd (load_data L iv key r)) name = None \<and>
            fst (save_user L iv' (snd (load_data L iv key r)) u)
              = Inl (ValueError msg_model_uninitialised))"
proof -
  have d: "decrypt_aes_gcm L key (take 12 f) (drop 12 (take (length f - 16) f))
             (drop (length f - 16) f) None = Inl InvalidTag"
    using assms(3,4) file_parts[OF assms(2)] by (simp add: decrypt_aes_gcm_def)
  have l: "load_data L iv key r = (Inl InvalidTag, r\<lparr>data_key := Some key\<rparr>)"
    using assms(1,2) d by (simp add: load_data_def Let_def)
  show ?thesis
    by (simp add: l get_all_users_def get_user_by_username_def save_user_def)
qed

theorem C3_failed_decryption_is_raised_witness:
  "data_bin (FileRepository_init (Some example_corrupt_file)) = Some example_corrupt_file \<and>
   28 \<le> length example_corrupt_file \<and> length example_key = 32 \<and>
   aesgcm_decrypt example_lib example_key (take 12 example_corrupt_file)
     (drop 12 example_corrupt_file) None = None \<and>
   data_model (FileRepository_init (Some example_corrupt_file)) = None \<and>
   load_data example_lib example_iv example_key (FileRepository_init (Some example_corrupt_file))
     = (Inl InvalidTag, (FileRepository_init (Some example_corrupt_file))\<lparr>data_key := Some example_key\<rparr>) \<and>
   data_model (snd (load_data example_lib example_iv example_key
       (FileRepository_init (Some example_corrupt_file)))) = None \<and>
   get_all_users (snd (load_data example_lib example_iv example_key
       (FileRepository_init (Some example_corrupt_file)))) = [] \<and>
   get_user_by_username (snd (load_data example_lib example_iv example_key
       (FileRepository_init (Some example_corrupt_file)))) alice = None \<and>
   fst (save_user example_lib example_iv (snd (load_data example_lib example_iv example_key
       (FileRepository_init (Some example_corrupt_file)))) (example_user alice secret1))
     = Inl (ValueError msg_model_uninitialised)"
proof -
  have h1: "data_bin (FileRepository_init (Some example_corrupt_file)) = Some example_corrupt_file"
    by (simp add: FileRepository_init_def)
  have h2: "28 \<le> length example_corrupt_file" by (simp add: example_corrupt_file_def)
  have h3: "length example_key = 32" by (simp add: example_key_def)
  have h4: "aesgcm_decrypt example_lib example_key (take 12 example_corrupt_file)
     (drop 12 example_corrupt_file) None = None"
    by (simp add: example_lib_def example_corrupt_file_def)
  have h5: "data_model (FileRepository_init (Some example_corrupt_file)) = None"
    by (simp add: FileRepository_init_def)
  show ?thesis
    using C3_failed_decryption_is_raised[OF h1 h2 h3 h4, of example_iv alice example_iv
        "example_user alice secret1"] h1 h2 h3 h4 h5
    by blast
qed

text \<open>
  Claim C4. For a 32-byte key, decrypting the nonce, ciphertext and tag that
  \<open>encrypt_aes_gcm\<close> returns for a plaintext, with the same associated data, returns that
  plaintext. AES-GCM itself is the library's: its output is the ciphertext followed by a
  16-byte tag, and its decryption inverts its encryption; on that, the cut into ciphertext
  and tag and the length checks of the two functions keep the round trip.
\<close>

theorem C4_decrypt_inverts_encrypt:
  assumes "length key = 32" and "length iv = 12"
    and "length (aesgcm_encrypt L key iv P aad) = length P + 16"
    and "aesgcm_decrypt L key iv (aesgcm_encrypt L key iv P aad) aad = Some P"
  shows "\<exists>ciphertext tag.
           encrypt_aes_gcm L key iv P aad = Inr (iv, ciphertext, tag) \<and>
           length ciphertext = length P \<and> length tag = 16 \<and>
           decrypt_aes_gcm L key iv ciphertext tag aad = Inr P"
  using assms by (simp add: encrypt_aes_gcm_def decrypt_aes_gcm_def Let_def)

theorem C4_decrypt_inverts_encrypt_witness:
  "length example_key = 32 \<and> length example_iv = 12 \<and>
   length (aesgcm_encrypt example_lib example_key example_iv example_plaintext None)
     = length example_plaintext + 16 \<and>
   aesgcm_decrypt example_lib example_key example_iv
     (aesgcm_encrypt example_lib example_key example_iv example_plaintext None) None
     = Some example_plaintext \<and>
   (\<exists>ciphertext tag.
      encrypt_aes_gcm example_lib example_key example_iv example_plaintext None
        = Inr (example_iv, ciphertext, tag) \<and>
      length ciphertext = length example_plaintext \<and> length tag = 16 \<and>
      decrypt_aes_gcm example_lib example_key example_iv ciphertext tag None
        = Inr example_plaintext)"
proof -
  have h1: "length example_key = 32" and h2: "length example_iv = 12"
    by (simp_all add: example_key_def example_iv_def)
  have h3: "length (aesgcm_encrypt example_lib example_key example_iv example_plaintext None)
     = length example_plaintext + 16"
    by (simp add: example_lib_def)
  have h4: "aesgcm_decrypt example_lib example_key example_iv
     (aesgcm_encrypt example_lib example_key example_iv example_plaintext None) None
     = Some example_plaintext"
    by (rule example_lib_roundtrip)
  show ?thesis
    using C4_decrypt_inverts_encrypt[OF h1 h2 h3 h4] h1 h2 h3 h4 by blast
qed

text \<open>
  Claim C5. A record of a version greater than the current one must make \<open>migrate\<close> signal
  an error, and a record at the current version is returned unchanged. On the code a record
  of version 2, which \<open>validate_version\<close> of the same class rejects, is returned as it is:
  \<open>migrate\<close> returns every record unchanged (\<open>migrate_returns_record\<close>).
\<close>

theorem C5_future_version_is_returned:
  "CURRENT_VERSION < 2 \<and> \<not> validate_version 2 \<and>
   migrate (JObj [(k_version, JInt 2), (k_users, JList []), (k_config, JObj [])])
     = Inr (JObj [(k_version, JInt 2), (k_users, JList []), (k_config, JObj [])])"
  by (simp add: migrate_def CURRENT_VERSION_def validate_version_def)

text \<open>
  Claim C6. When the store holds a user of that username, \<open>save_user\<close> raises the
  duplicate-username error and returns the user object and the repository as they were;
  with usernames unique in the store before, exactly one user has that username
  afterwards.
\<close>

theorem C6_duplicate_username_rejected:
  assumes "get_user_by_username r (username u) = Some x"
    and "distinct (map username (get_all_users r))"
  shows "save_user L iv r u = (Inl (ValueError (msg_username_exists (username u))), u, r) \<and>
         length (filter (\<lambda>y. username y = username u)
                   (get_all_users (snd (snd (save_user L iv r u))))) = 1"
proof -
  have s: "save_user L iv r u = (Inl (ValueError (msg_username_exists (username u))), u, r)"
    using assms(1)
    by (auto simp: save_user_def get_user_by_username_def split: option.splits)
  from assms(1) obtain m where m: "data_model r = Some m"
    "find (\<lambda>y. username y = username u) (users m) = Some x"
    by (auto simp: get_user_by_username_def split: option.splits)
  from m(2) have "filter (\<lambda>y. username y = username u) (users m) \<noteq> []"
    by (rule find_Some_filter)
  moreover have "length (filter (\<lambda>y. username y = username u) (users m)) \<le> 1"
    using assms(2) m(1) distinct_filter_le1[of username "users m" "username u"]
    by (simp add: get_all_users_def)
  ultimately have "length (filter (\<lambda>y. username y = username u) (get_all_users r)) = 1"
    using m(1)
    by (cases "filter (\<lambda>y. username y = username u) (users m)") (auto simp: get_all_users_def)
  with s show ?thesis by simp
qed

theorem C6_duplicate_username_rejected_witness:
  "get_user_by_username (example_repo [example_user alice secret1] SystemConfig_default)
       (username (example_user alice secret2))
     = Some (example_user alice secret1) \<and>
   distinct (map username
       (get_all_users (example_repo [example_user alice secret1] SystemConfig_default))) \<and>
   save_user example_lib example_iv
       (example_repo [example_user alice secret1] SystemConfig_default)
       (example_user alice secret2)
     = (Inl (ValueError (msg_username_exists (username (example_user alice secret2)))),
        example_user alice secret2,
        example_repo [example_user alice secret1] SystemConfig_default) \<and>
   length (filter (\<lambda>y. username y = username (example_user alice secret2))
       (get_all_users (snd (snd (save_user example_lib example_iv
           (example_repo [example_user alice secret1] SystemConfig_default)
           (example_user alice secret2)))))) = 1"
proof -
  have a: "get_user_by_username (example_repo [example_user alice secret1] SystemConfig_default)
       (username (example_user alice secret2)) = Some (example_user alice secret1)"
    by (simp add: get_user_by_username_def example_repo_def example_user_def)
  have b: "distinct (map username
       (get_all_users (example_repo [example_user alice secret1] SystemConfig_default)))"
    by (simp add: get_all_users_def example_repo_def)
  show ?thesis
    using C6_duplicate_username_rejected[OF a b, of example_lib example_iv] a b
    by blast
qed

text \<open>
  Claim C7. A process starts with a fresh repository object and loads the store. After a
  load that succeeds the counter is 1 when the store holds no user, and otherwise one more
  than the greatest stored id (among the ids that are neither \<open>None\<close> nor 0, those the code
  takes the maximum of). In every run of inserts and deletes that follows, the ids the
  repository assigns are strictly increasing in the order of assignment, each is at least
  the counter after the load and greater than every such stored id, and the counter never
  decreases: an id assigned later is greater than every id assigned before it and than
  every id the store held at the load, also after deletes. With dave stored under id 1,
  deleting dave and inserting dave again assigns 2.
\<close>

theorem C7_issued_ids_increase:
  assumes "load_data L iv key (FileRepository_init file) = (Inr (), r)"
  shows "next_user_id r =
           (if get_all_users r = [] then 1
            else Max (set (truthy_ids (get_all_users r))) + 1) \<and>
         sorted_wrt (<) (fst (run_ops L r ops)) \<and>
         (\<forall>i\<in>set (fst (run_ops L r ops)).
            next_user_id r \<le> i \<and> (\<forall>j\<in>set (truthy_ids (get_all_users r)). j < i)) \<and>
         next_user_id r \<le> next_user_id (snd (run_ops L r ops))"
proof -
  have n0: "next_user_id (FileRepository_init file) = 1"
    by (simp add: FileRepository_init_def)
  from load_data_next_user_id[OF assms] n0
  have c: "(get_all_users r = [] \<and> next_user_id r = 1) \<or>
         (truthy_ids (get_all_users r) \<noteq> [] \<and>
          next_user_id r = Max (set (truthy_ids (get_all_users r))) + 1)"
    by simp
  then have 1: "next_user_id r =
           (if get_all_users r = [] then 1
            else Max (set (truthy_ids (get_all_users r))) + 1)"
    using truthy_ids_Nil[of "get_all_users r"] by auto
  have 2: "j < next_user_id r" if "j \<in> set (truthy_ids (get_all_users r))" for j
  proof -
    from that have ne: "truthy_ids (get_all_users r) \<noteq> []" by auto
    with c have "next_user_id r = Max (set (truthy_ids (get_all_users r))) + 1"
      using truthy_ids_Nil[of "get_all_users r"] by auto
    moreover have "j \<le> Max (set (truthy_ids (get_all_users r)))"
      using that by simp
    ultimately show ?thesis by simp
  qed
  from run_ops_increasing[of L r ops]
  have 3: "sorted_wrt (<) (fst (run_ops L r ops))"
    and 4: "\<forall>i\<in>set (fst (run_ops L r ops)). next_user_id r \<le> i"
    and 5: "next_user_id r \<le> next_user_id (snd (run_ops L r ops))"
    by auto
  have 6: "\<forall>i\<in>set (fst (run_ops L r ops)).
            next_user_id r \<le> i \<and> (\<forall>j\<in>set (truthy_ids (get_all_users r)). j < i)"
    using 4 2 by fastforce
  from 1 3 6 5 show ?thesis by blast
qed

theorem C7_issued_ids_increase_witness:
  "load_data example_loading_lib example_iv example_key
     (FileRepository_init (Some example_stored_file)) = (Inr (), example_loaded_repo) \<and>
   truthy_ids (get_all_users example_loaded_repo) = [1] \<and>
   next_user_id example_loaded_repo = 2 \<and>
   fst (run_ops example_loading_lib example_loaded_repo
     [Delete example_iv dave, Insert example_iv (example_user dave secret1)]) = [2] \<and>
   sorted_wrt (<) (fst (run_ops example_loading_lib example_loaded_repo
     [Delete example_iv dave, Insert example_iv (example_user dave secret1)])) \<and>
   next_user_id example_loaded_repo
     \<le> next_user_id (snd (run_ops example_loading_lib example_loaded_repo
     [Delete example_iv dave, Insert example_iv (example_user dave secret1)]))"
proof -
  have t: "truthy_ids (get_all_users example_loaded_repo) = [1]"
    by (simp add: get_all_users_def example_loaded_repo_def example_stored_model_def)
  have n: "next_user_id example_loaded_repo = 2"
    by (simp add: example_loaded_repo_def)
  have e: "fst (run_ops example_loading_lib example_loaded_repo
     [Delete example_iv dave, Insert example_iv (example_user dave secret1)]) = [2]"
    by (simp add: save_user_def delete_user_def save_data_def example_loaded_repo_def
      example_stored_model_def example_user_def get_user_by_username_def issued_id_def
      encrypt_aes_gcm_def example_loading_lib_def example_lib_def example_key_def
      dave_def Let_def)
  show ?thesis
    using example_load t n e
      C7_issued_ids_increase[OF example_load,
        of "[Delete example_iv dave, Insert example_iv (example_user dave secret1)]"]
    by blast
qed




text \<open>
  Claim C9, as stated, fails: with \<open>face_threshold\<close> 1, which is in the valid range, an
  error of the comparison service makes the face factor pass, and the login succeeds with
  an \<open>MFA_SUCCESS\<close> event. With the threshold at 0.5 the login fails, but not with a kind
  of its own: result, message and log are those of a service that answers with confidence
  0, a face that does not match.
\<close>

theorem C9_service_error_passes_at_one:
  "success (fst (authenticate_user example_lib example_face (example_face_world 1)
      alice secret1)) = True \<and>
   map log_result (auth_log (snd (authenticate_user example_lib example_face
      (example_face_world 1) alice secret1))) = [SUCCESS, MFA_SUCCESS] \<and>
   authenticate_user example_lib example_face (example_face_world (1 / 2)) alice secret1
     = authenticate_user example_lib example_face_mismatch (example_face_world (1 / 2))
         alice secret1 \<and>
   map log_result (auth_log (snd (authenticate_user example_lib example_face
      (example_face_world (1 / 2)) alice secret1))) = [SUCCESS, FAIL_FACE_MISMATCH]"
  using example_face_passes_at_one example_face_error_is_mismatch by blast

text \<open>
  Claim C9, amended. When the comparison service raises an error, \<open>compute_distance\<close>
  returns the largest distance, 1.0, and for every \<open>face_threshold\<close> below 1 the login
  fails: the outcome is that of a face that does not match (its message, and a
  \<open>FAIL_FACE_MISMATCH\<close> event added to the log of the password step), never a pass. The
  code has no outcome of its own for an error of the service.
\<close>

theorem C9_service_error_fails_below_one:
  assumes "authenticate_password_only L w0 n p = (password_result, w)"
    and "success password_result" and "user password_result = Some u"
    and "force_mfa (get_system_config (repo w))"
    and "face_enabled u" and "face_embedding u = JList [JStr FACEPP_IMAGE, image1]"
    and "CV2_AVAILABLE F" and "FACEPP_AVAILABLE F"
    and "capture_and_extract_face F = Inr (JList [JStr FACEPP_IMAGE, image2])"
    and "compare_faces_facepp F image1 image2 = Inl e"
    and "face_threshold (get_system_config (repo w)) < 1"
  shows "compute_distance F (face_embedding u) (JList [JStr FACEPP_IMAGE, image2]) = Inr 1 \<and>
         authenticate_user L F w0 n p =
           (failure (msg_face_mismatch L 1 (face_threshold (get_system_config (repo w)))),
            w\<lparr>auth_log := auth_log w
               @ [\<lparr>log_username = n, log_result = FAIL_FACE_MISMATCH,
                   log_reason = [20154, 33080, 27604, 23545, 22833, 36133]\<rparr>]\<rparr>)"
proof -
  have d: "compute_distance F (face_embedding u) (JList [JStr FACEPP_IMAGE, image2]) = Inr 1"
    unfolding assms(6) using assms(8,10) by (rule compute_distance_service_error)
  have t: "truthy (face_embedding u)" by (simp add: assms(6))
  have g: "\<not> 1 \<le> face_threshold (get_system_config (repo w))" using assms(11) by simp
  from authenticate_user_face_fail[OF assms(1-5) t assms(7-9) d g] d
  show ?thesis by simp
qed

theorem C9_service_error_fails_below_one_witness:
  "authenticate_password_only example_lib (example_face_world (1 / 2)) alice secret1 =
     (\<lparr>success = True, message = msg_login_ok (strip alice),
       user = Some (example_face_user alice secret1)\<rparr>,
      example_face_world_logged (1 / 2)) \<and>
   force_mfa (get_system_config (repo (example_face_world_logged (1 / 2)))) \<and>
   face_enabled (example_face_user alice secret1) \<and>
   face_embedding (example_face_user alice secret1) = JList [JStr FACEPP_IMAGE, JStr [48, 49]] \<and>
   CV2_AVAILABLE example_face \<and> FACEPP_AVAILABLE example_face \<and>
   capture_and_extract_face example_face = Inr (JList [JStr FACEPP_IMAGE, JStr [48, 49]]) \<and>
   compare_faces_facepp example_face (JStr [48, 49]) (JStr [48, 49]) = Inl (LibraryError []) \<and>
   face_threshold (get_system_config (repo (example_face_world_logged (1 / 2)))) < 1 \<and>
   compute_distance example_face (face_embedding (example_face_user alice secret1))
     (JList [JStr FACEPP_IMAGE, JStr [48, 49]]) = Inr 1 \<and>
   authenticate_user example_lib example_face (example_face_world (1 / 2)) alice secret1 =
     (failure (msg_face_mismatch example_lib 1
        (face_threshold (get_system_config (repo (example_face_world_logged (1 / 2)))))),
      (example_face_world_logged (1 / 2))
        \<lparr>auth_log := auth_log (example_face_world_logged (1 / 2))
           @ [\<lparr>log_username = alice, log_result = FAIL_FACE_MISMATCH,
               log_reason = [20154, 33080, 27604, 23545, 22833, 36133]\<rparr>]\<rparr>)"
proof -
  let ?w = "example_face_world_logged (1 / 2)"
  let ?pr = "\<lparr>success = True, message = msg_login_ok (strip alice),
       user = Some (example_face_user alice secret1)\<rparr>"
  have h1: "authenticate_password_only example_lib (example_face_world (1 / 2)) alice secret1
              = (?pr, ?w)"
    by (rule example_face_world_password)
  have h2: "success ?pr" and h3: "user ?pr = Some (example_face_user alice secret1)"
    by simp_all
  have h4: "force_mfa (get_system_config (repo ?w))"
    by (simp add: example_face_world_logged_repo example_face_world_config
        SystemConfig_default_def)
  have h5: "face_enabled (example_face_user alice secret1)"
    and h6: "face_embedding (example_face_user alice secret1)
               = JList [JStr FACEPP_IMAGE, JStr [48, 49]]"
    by (simp_all add: example_face_user_def)
  have h7: "CV2_AVAILABLE example_face" and h8: "FACEPP_AVAILABLE example_face"
    and h9: "capture_and_extract_face example_face
               = Inr (JList [JStr FACEPP_IMAGE, JStr [48, 49]])"
    and h10: "compare_faces_facepp example_face (JStr [48, 49]) (JStr [48, 49])
               = Inl (LibraryError [])"
    by (simp_all add: example_face_def)
  have h11: "face_threshold (get_system_config (repo ?w)) < 1"
    by (simp add: example_face_world_logged_repo example_face_world_config)
  show ?thesis
    using C9_service_error_fails_below_one[OF h1 h2 h3 h4 h5 h6 h7 h8 h9 h10 h11]
      h1 h4 h5 h6 h7 h8 h9 h10 h11
    by blast
qed

text \<open>
  Claim C10. Whitespace around a username does not matter: registration and the password
  check give the same result and the same state for a username and for that username with
  whitespace added at both ends. A successful registration stores the stripped username,
  which is found under that name afterwards and neither starts nor ends with whitespace.
  The password check looks up the stripped form of its argument: when the store holds a
  user under the stripped name and the password is that user's, the padded username is
  accepted, with that user as the result; when the store holds no user under the stripped
  name, it is refused with \<open>msg_wrong_credentials\<close>. After alice has registered, the login
  of \<open>" alice\\t "\<close> succeeds as alice.
\<close>

theorem C10_usernames_are_stripped:
  assumes "\<forall>c\<in>set a. isspace c" and "\<forall>c\<in>set b. isspace c"
  shows "register_user L s iv w (a @ n @ b) p = register_user L s iv w n p \<and>
    (success (fst (register_user L s iv w n p)) \<longrightarrow>
       (\<exists>x. user (fst (register_user L s iv w n p)) = Some x \<and> username x = strip n \<and>
            get_user_by_username (repo (snd (register_user L s iv w n p))) (strip n) = Some x) \<and>
       strip n \<noteq> [] \<and> \<not> isspace (hd (strip n)) \<and> \<not> isspace (last (strip n))) \<and>
    (n \<noteq> [] \<longrightarrow>
       authenticate_password_only L w2 (a @ n @ b) p = authenticate_password_only L w2 n p) \<and>
    (n \<noteq> [] \<and> p \<noteq> [] \<and> utf8_encodable p \<and> utf8_encodable (strip n) \<and>
     get_user_by_username (repo w2) (strip n) = Some u \<and>
     b64decode L (salt u) = Inr salt_bytes \<and>
     b64encode L (pbkdf2_hmac_sha256 L p salt_bytes PBKDF2_ITERATIONS) = password_hash u \<longrightarrow>
       fst (authenticate_password_only L w2 (a @ n @ b) p)
         = \<lparr>success = True, message = msg_login_ok (strip n), user = Some u\<rparr>) \<and>
    (n \<noteq> [] \<and> p \<noteq> [] \<and> utf8_encodable (strip n) \<and>
     get_user_by_username (repo w2) (strip n) = None \<longrightarrow>
       fst (authenticate_password_only L w2 (a @ n @ b) p) = failure msg_wrong_credentials)"
proof -
  have st: "strip (a @ n @ b) = strip n"
    using assms by (rule strip_padding)
  have 1: "register_user L s iv w (a @ n @ b) p = register_user L s iv w n p"
    using st by (rule register_user_strip)
  have 2: "authenticate_password_only L w2 (a @ n @ b) p = authenticate_password_only L w2 n p"
    if "n \<noteq> []"
    using that st by (intro authenticate_password_only_strip) auto
  have 3: "(\<exists>x. user (fst (register_user L s iv w n p)) = Some x \<and> username x = strip n \<and>
            get_user_by_username (repo (snd (register_user L s iv w n p))) (strip n) = Some x) \<and>
       strip n \<noteq> [] \<and> \<not> isspace (hd (strip n)) \<and> \<not> isspace (last (strip n))"
    if "success (fst (register_user L s iv w n p))"
    using register_user_success[OF that] strip_no_leading[of n] strip_no_trailing[of n]
    by blast
  have 4: "fst (authenticate_password_only L w2 (a @ n @ b) p)
         = \<lparr>success = True, message = msg_login_ok (strip n), user = Some u\<rparr>"
    if "n \<noteq> []" "p \<noteq> []" "utf8_encodable p" "utf8_encodable (strip n)"
      "get_user_by_username (repo w2) (strip n) = Some u"
      "b64decode L (salt u) = Inr salt_bytes"
      "b64encode L (pbkdf2_hmac_sha256 L p salt_bytes PBKDF2_ITERATIONS) = password_hash u"
    using authenticate_password_only_correct[OF that(1,2,5,6,3,7,4)] 2[OF that(1)]
    by simp
  have 5: "fst (authenticate_password_only L w2 (a @ n @ b) p) = failure msg_wrong_credentials"
    if "n \<noteq> []" "p \<noteq> []" "utf8_encodable (strip n)"
      "get_user_by_username (repo w2) (strip n) = None"
    using authenticate_password_only_unknown[OF that, of L] 2[OF that(1)] by simp
  from 1 2 3 4 5 show ?thesis by blast
qed

theorem C10_usernames_are_stripped_witness:
  "isspace 32 \<and> isspace 9 \<and> alice \<noteq> [] \<and> secret1 \<noteq> [] \<and>
   utf8_encodable secret1 \<and> utf8_encodable (strip alice) \<and>
   register_user example_lib example_salt example_iv (example_world [] SystemConfig_default)
       alice secret1
     = (\<lparr>success = True, message = msg_registered (strip alice),
         user = Some ((example_user alice secret1)\<lparr>user_id := Some 1\<rparr>)\<rparr>,
        example_registered_world) \<and>
   get_user_by_username (repo example_registered_world) (strip alice)
     = Some ((example_user alice secret1)\<lparr>user_id := Some 1\<rparr>) \<and>
   b64decode example_lib (salt ((example_user alice secret1)\<lparr>user_id := Some 1\<rparr>))
     = Inr example_salt \<and>
   b64encode example_lib
       (pbkdf2_hmac_sha256 example_lib secret1 example_salt PBKDF2_ITERATIONS)
     = password_hash ((example_user alice secret1)\<lparr>user_id := Some 1\<rparr>) \<and>
   register_user example_lib example_salt example_iv (example_world [] SystemConfig_default)
       ([32] @ alice @ [9, 32]) secret1
     = register_user example_lib example_salt example_iv
         (example_world [] SystemConfig_default) alice secret1 \<and>
   authenticate_password_only example_lib example_registered_world
       ([32] @ alice @ [9, 32]) secret1
     = authenticate_password_only example_lib example_registered_world alice secret1 \<and>
   fst (authenticate_password_only example_lib example_registered_world
       ([32] @ alice @ [9, 32]) secret1)
     = \<lparr>success = True, message = msg_login_ok (strip alice),
        user = Some ((example_user alice secret1)\<lparr>user_id := Some 1\<rparr>)\<rparr> \<and>
   strip alice \<noteq> [] \<and> \<not> isspace (hd (strip alice)) \<and> \<not> isspace (last (strip alice))"
proof -
  have h1: "\<forall>c\<in>set [32]. isspace c" and h2: "\<forall>c\<in>set [9, 32]. isspace c"
    by (simp_all add: isspace_def)
  have s1: "isspace 32" and s2: "isspace 9" by (simp_all add: isspace_def)
  have h3: "alice \<noteq> []" and h4: "secret1 \<noteq> []" by (simp_all add: alice_def secret1_def)
  have h5: "utf8_encodable secret1" by (rule example_names_encodable)
  have h6: "utf8_encodable (strip alice)"
    unfolding ex_strip_alice by (rule example_names_encodable)
  note h7 = example_registration
  have h8: "get_user_by_username (repo example_registered_world) (strip alice)
     = Some ((example_user alice secret1)\<lparr>user_id := Some 1\<rparr>)"
    by (simp add: ex_strip_alice get_user_by_username_def example_registered_world_def
        example_user_def)
  have h9: "b64decode example_lib (salt ((example_user alice secret1)\<lparr>user_id := Some 1\<rparr>))
     = Inr example_salt"
    by (simp add: example_lib_def example_user_def example_salt_def)
  have h10: "b64encode example_lib
       (pbkdf2_hmac_sha256 example_lib secret1 example_salt PBKDF2_ITERATIONS)
     = password_hash ((example_user alice secret1)\<lparr>user_id := Some 1\<rparr>)"
    by (simp add: example_user_def)
  have sc: "success (fst (register_user example_lib example_salt example_iv
       (example_world [] SystemConfig_default) alice secret1))"
    by (simp add: h7)
  show ?thesis
    using C10_usernames_are_stripped[OF h1 h2, where L = example_lib and s = example_salt
        and iv = example_iv and w = "example_world [] SystemConfig_default" and n = alice
        and p = secret1 and ?w2.0 = example_registered_world
        and u = "(example_user alice secret1)\<lparr>user_id := Some 1\<rparr>"
        and salt_bytes = example_salt]
      s1 s2 h3 h4 h5 h6 h7 h8 h9 h10 sc
    by blast
qed

end
